theory Spec2Isabelle
  imports Main
begin

section \<open>Data model of the dashboard service\<close>

text \<open>
  The service (\<^verbatim>\<open>src/services/dashboard.service.ts\<close>) reads and updates the
  \<^verbatim>\<open>Dashboard\<close> collection of a document store. Identifiers are the strings the
  service receives (\<^verbatim>\<open>userId: string\<close>), written as 24 hexadecimal digits. Amounts
  are whole numbers: the code adds them as doubles, which is exact for whole numbers as
  long as the sums stay below \<open>2 ^ 53\<close> in size; fractions and larger amounts are
  outside this model.
\<close>

type_synonym object_id = string

datatype calendar_month = Jan | Feb | Mar | Apr | May | Jun | Jul | Aug | Sep | Oct | Nov | Dec

text \<open>A \<^verbatim>\<open>Date\<close>, read in UTC: calendar day and the milliseconds since midnight.\<close>

record date_time =
  dt_year :: int
  dt_month :: calendar_month
  dt_day :: nat
  dt_millis :: nat

text \<open>
  The entries of the three sub-collections (\<^verbatim>\<open>IDashboardRevenue\<close>,
  \<^verbatim>\<open>IDashboardReceivable\<close>, \<^verbatim>\<open>IDashboardExpense\<close>): each has an amount and a
  date, and its own further fields. The model file is not among the sources; the
  fields are the ones the service reads (\<^verbatim>\<open>amount\<close>, \<^verbatim>\<open>date\<close>, \<^verbatim>\<open>source\<close>,
  \<^verbatim>\<open>status\<close>, \<^verbatim>\<open>client\<close>, \<^verbatim>\<open>category\<close>).
\<close>

record entry =
  amount :: int
  date :: date_time

record revenue = entry +
  source :: object_id

record receivable = entry +
  status :: string
  client :: object_id

record expense = entry +
  category :: string

text \<open>A document of the collection: \<^verbatim>\<open>_id\<close>, \<^verbatim>\<open>user\<close> and the three arrays.\<close>

record dashboard =
  doc_id :: object_id
  user :: object_id
  revenues :: "revenue list"
  receivables :: "receivable list"
  expenses :: "expense list"

datatype error =
  ReferenceNotFound | DashboardDataNotFound | ValidationError | ConversionFailure | InvalidProjection
  | BSONError

text \<open>
  \<^verbatim>\<open>new mongoose.Types.ObjectId(userId)\<close>: the identifier itself when the string is
  24 hexadecimal digits; on any other string the constructor throws. The two read
  operations, which call it first, are modelled from there on, for an identifier on
  which it succeeds.
\<close>

definition hex_digit :: "char \<Rightarrow> bool" where
  "hex_digit c = (c \<in> set ''0123456789abcdefABCDEF'')"

definition ObjectId :: "string \<Rightarrow> error + object_id" where
  "ObjectId s = (if length s = 24 \<and> list_all hex_digit s then Inr s else Inl BSONError)"

definition expenseTypes :: "string list" where
  "expenseTypes = [''Transfer between cards'', ''Cash withdrawn'', ''Food'', ''Taxes'', ''Rent'']"

section \<open>Calendar readings of a date\<close>

fun month_number :: "calendar_month \<Rightarrow> int" where
  "month_number Jan = 1"
| "month_number Feb = 2"
| "month_number Mar = 3"
| "month_number Apr = 4"
| "month_number May = 5"
| "month_number Jun = 6"
| "month_number Jul = 7"
| "month_number Aug = 8"
| "month_number Sep = 9"
| "month_number Oct = 10"
| "month_number Nov = 11"
| "month_number Dec = 12"

text \<open>\<^verbatim>\<open>Date.prototype.getMonth\<close>: zero-based.\<close>

definition getMonth :: "date_time \<Rightarrow> nat" where
  "getMonth d = nat (month_number (dt_month d) - 1)"

text \<open>The aggregation operators \<^verbatim>\<open>$month\<close> (1 to 12) and \<^verbatim>\<open>$dayOfMonth\<close>.\<close>

definition mongo_month :: "date_time \<Rightarrow> int" where
  "mongo_month d = month_number (dt_month d)"

definition mongo_dayOfMonth :: "date_time \<Rightarrow> int" where
  "mongo_dayOfMonth d = int (dt_day d)"

text \<open>Dates are ordered as instants: by year, month, day, then time of day.\<close>

definition date_le :: "date_time \<Rightarrow> date_time \<Rightarrow> bool" where
  "date_le a b =
     (dt_year a < dt_year b \<or>
      (dt_year a = dt_year b \<and>
       (month_number (dt_month a) < month_number (dt_month b) \<or>
        (dt_month a = dt_month b \<and>
         (dt_day a < dt_day b \<or>
          (dt_day a = dt_day b \<and> dt_millis a \<le> dt_millis b))))))"

section \<open>The operators of the document store\<close>

text \<open>
  Values of aggregation expressions whose type is not fixed by the schema: a number, a
  string or an array. Equality of such values (\<^verbatim>\<open>$eq\<close>) compares type and value; an
  array never equals a string.
\<close>

datatype bson = BNumber int | BString string | BArray "bson list"

text \<open>
  A field path through an array of sub-documents, \<^verbatim>\<open>'$revenues.amount'\<close>: the array
  of that field's values.
\<close>

definition field_path :: "('a \<Rightarrow> bson) \<Rightarrow> 'a list \<Rightarrow> bson" where
  "field_path f xs = BArray (map f xs)"

fun numeric_part :: "bson \<Rightarrow> int" where
  "numeric_part (BNumber n) = n"
| "numeric_part (BString s) = 0"
| "numeric_part (BArray xs) = 0"

text \<open>
  \<^verbatim>\<open>$sum\<close> of one operand in a \<^verbatim>\<open>$project\<close> stage: a number is itself, an array
  is traversed and its numeric elements are added, anything else counts 0.
\<close>

fun mongo_sum :: "bson \<Rightarrow> int" where
  "mongo_sum (BNumber n) = n"
| "mongo_sum (BString s) = 0"
| "mongo_sum (BArray xs) = sum_list (map numeric_part xs)"

definition mongo_eq :: "bson \<Rightarrow> bson \<Rightarrow> bool" where
  "mongo_eq a b = (a = b)"

definition mongo_cond :: "bool \<Rightarrow> 'a \<Rightarrow> 'a \<Rightarrow> 'a" where
  "mongo_cond c t e = (if c then t else e)"

text \<open>
  \<^verbatim>\<open>$reduce\<close> folds an array from the left, \<^verbatim>\<open>$$value\<close> being the accumulator and
  \<^verbatim>\<open>$$this\<close> the element; \<^verbatim>\<open>$map\<close> is the list map.
\<close>

definition mongo_reduce :: "'a list \<Rightarrow> 'b \<Rightarrow> ('b \<Rightarrow> 'a \<Rightarrow> 'b) \<Rightarrow> 'b" where
  "mongo_reduce input initialValue f = foldl f initialValue input"

definition mongo_map :: "'a list \<Rightarrow> ('a \<Rightarrow> 'b) \<Rightarrow> 'b list" where
  "mongo_map input f = map f input"

text \<open>
  A query of a \<^verbatim>\<open>$match\<close> stage is a condition on a whole document. The service
  builds \<^verbatim>\<open>{ user, $and? }\<close>: the \<^verbatim>\<open>user\<close> field equals the identifier, and every
  member of \<^verbatim>\<open>$and\<close>, when present, holds.
\<close>

type_synonym filter_query = "dashboard \<Rightarrow> bool"

record matchConditions =
  mc_user :: object_id
  mc_and :: "filter_query list option"

definition matches :: "matchConditions \<Rightarrow> dashboard \<Rightarrow> bool" where
  "matches mc d =
     (user d = mc_user mc \<and>
      (case mc_and mc of None \<Rightarrow> True | Some qs \<Rightarrow> list_all (\<lambda>q. q d) qs))"

text \<open>
  A comparison on a path through an array, \<^verbatim>\<open>{'revenues.date': {$gte: v}}\<close>, holds
  of a document when some element of the array satisfies it.
\<close>

definition path_gte :: "('a \<Rightarrow> date_time) \<Rightarrow> 'a list \<Rightarrow> date_time \<Rightarrow> bool" where
  "path_gte f xs v = list_ex (\<lambda>x. date_le v (f x)) xs"

definition path_lte :: "('a \<Rightarrow> date_time) \<Rightarrow> 'a list \<Rightarrow> date_time \<Rightarrow> bool" where
  "path_lte f xs v = list_ex (\<lambda>x. date_le (f x) v) xs"

section \<open>getOverview\<close>

record overview_filter =
  flt_date :: "date_time option"
  flt_month :: "int option"
  flt_year :: "int option"

text \<open>The row of the \<^verbatim>\<open>$project\<close> stage; \<^verbatim>\<open>_id\<close> is kept by default.\<close>

record overview_row =
  row_id :: object_id
  totalRevenue :: int
  totalReceivables :: int
  pendingReceivables :: int
  totalExpenses :: int

definition overview_project :: "dashboard \<Rightarrow> overview_row" where
  "overview_project d =
     \<lparr> row_id = doc_id d,
       totalRevenue = mongo_sum (field_path (\<lambda>x. BNumber (amount x)) (revenues d)),
       totalReceivables = mongo_sum (field_path (\<lambda>x. BNumber (amount x)) (receivables d)),
       pendingReceivables =
         mongo_sum
           (mongo_cond
              (mongo_eq (field_path (\<lambda>x. BString (status x)) (receivables d)) (BString ''Pending''))
              (field_path (\<lambda>x. BNumber (amount x)) (receivables d))
              (BNumber 0)),
       totalExpenses = mongo_sum (field_path (\<lambda>x. BNumber (amount x)) (expenses d)) \<rparr>"

text \<open>
  \<^verbatim>\<open>createDateFilter\<close> (\<^verbatim>\<open>utils/date\<close>) is not among the sources, so it is a
  parameter: from the three optional fields it builds a filter object, \<open>None\<close> when
  the object has no key and otherwise a condition on the document.
\<close>

type_synonym date_filter_builder =
  "date_time option \<Rightarrow> int option \<Rightarrow> int option \<Rightarrow> filter_query option"

definition overview_match ::
  "date_filter_builder \<Rightarrow> object_id \<Rightarrow> overview_filter option \<Rightarrow> matchConditions" where
  "overview_match createDateFilter userId flt =
     (let matchConditions = \<lparr> mc_user = userId, mc_and = None \<rparr>;
          dateFilter = createDateFilter (Option.bind flt flt_date) (Option.bind flt flt_month)
                         (Option.bind flt flt_year)
      in case dateFilter of
           None \<Rightarrow> matchConditions
         | Some q \<Rightarrow> matchConditions \<lparr> mc_and := Some [q] \<rparr>)"

definition getOverview ::
  "date_filter_builder \<Rightarrow> dashboard list \<Rightarrow> object_id \<Rightarrow> overview_filter option
     \<Rightarrow> overview_row list" where
  "getOverview createDateFilter Dashboard userId flt =
     map overview_project (filter (matches (overview_match createDateFilter userId flt)) Dashboard)"

text \<open>
  The totals as the specification words them: sums over the entries whose date
  satisfies the filter predicate (an exact day; else a year, with a month or without;
  else every entry), the pending sum over those of them whose status is
  \<^verbatim>\<open>"Pending"\<close>.
\<close>

definition filter_predicate :: "overview_filter option \<Rightarrow> date_time \<Rightarrow> bool" where
  "filter_predicate flt dt =
     (case Option.bind flt flt_date of
        Some day \<Rightarrow> dt_year dt = dt_year day \<and> dt_month dt = dt_month day \<and> dt_day dt = dt_day day
      | None \<Rightarrow>
          (case Option.bind flt flt_year of
             Some y \<Rightarrow>
               dt_year dt = y \<and>
               (case Option.bind flt flt_month of
                  Some m \<Rightarrow> month_number (dt_month dt) = m
                | None \<Rightarrow> True)
           | None \<Rightarrow> True))"

definition specified_overview :: "overview_filter option \<Rightarrow> dashboard \<Rightarrow> overview_row" where
  "specified_overview flt d =
     \<lparr> row_id = doc_id d,
       totalRevenue =
         sum_list (map amount (filter (\<lambda>x. filter_predicate flt (date x)) (revenues d))),
       totalReceivables =
         sum_list (map amount (filter (\<lambda>x. filter_predicate flt (date x)) (receivables d))),
       pendingReceivables =
         sum_list (map amount
           (filter (\<lambda>x. filter_predicate flt (date x) \<and> status x = ''Pending'') (receivables d))),
       totalExpenses =
         sum_list (map amount (filter (\<lambda>x. filter_predicate flt (date x)) (expenses d))) \<rparr>"

section \<open>getCharts\<close>

record charts_filter =
  startDate :: "date_time option"
  endDate :: "date_time option"

text \<open>
  The filter of the \<^verbatim>\<open>$match\<close> stage. A \<^verbatim>\<open>Date\<close> is truthy, so a bound is
  tested by its presence.
\<close>

definition charts_match :: "object_id \<Rightarrow> charts_filter option \<Rightarrow> matchConditions" where
  "charts_match userId flt =
     (let filterOptions = \<lparr> mc_user = userId, mc_and = None \<rparr> in
      if Option.bind flt startDate \<noteq> None \<or> Option.bind flt endDate \<noteq> None then
        (let and0 = [];
             and1 = (case Option.bind flt startDate of
                       Some s \<Rightarrow>
                         and0 @ [\<lambda>d. path_gte date (revenues d) s, \<lambda>d. path_gte date (expenses d) s]
                     | None \<Rightarrow> and0);
             and2 = (case Option.bind flt endDate of
                       Some e \<Rightarrow>
                         and1 @ [\<lambda>d. path_lte date (revenues d) e, \<lambda>d. path_lte date (expenses d) e]
                     | None \<Rightarrow> and1)
         in filterOptions \<lparr> mc_and := Some and2 \<rparr>)
      else filterOptions)"

text \<open>\<^verbatim>\<open>Array.prototype.indexOf\<close>: the first position of the element, or -1.\<close>

fun indexOf :: "'a list \<Rightarrow> 'a \<Rightarrow> int" where
  "indexOf [] x = - 1"
| "indexOf (y # ys) x =
     (if y = x then 0 else (let i = indexOf ys x in if i < 0 then - 1 else i + 1))"

text \<open>
  \<^verbatim>\<open>$toInt\<close> of a string: a base-10 integer (digits, with an optional leading minus)
  that fits 32 bits; anything else makes the aggregation fail.
\<close>

definition digit_of :: "char \<Rightarrow> nat option" where
  "digit_of c =
     (let n = (of_char c :: nat) in if 48 \<le> n \<and> n \<le> 57 then Some (n - 48) else None)"

fun digits_value :: "string \<Rightarrow> nat \<Rightarrow> nat option" where
  "digits_value [] acc = Some acc"
| "digits_value (c # cs) acc =
     (case digit_of c of None \<Rightarrow> None | Some v \<Rightarrow> digits_value cs (10 * acc + v))"

definition mongo_toInt :: "string \<Rightarrow> error + int" where
  "mongo_toInt s =
     (case s of
        [] \<Rightarrow> Inl ConversionFailure
      | c # cs \<Rightarrow>
          (let parsed =
                 (if c = CHR ''-'' then
                    (if cs = [] then None else map_option (\<lambda>n. - int n) (digits_value cs 0))
                  else map_option int (digits_value s 0))
           in case parsed of
                None \<Rightarrow> Inl ConversionFailure
              | Some n \<Rightarrow>
                  if - 2147483648 \<le> n \<and> n \<le> 2147483647 then Inr n else Inl ConversionFailure))"

text \<open>The results of a list of evaluations, or the first failure among them.\<close>

fun collect :: "(error + 'a) list \<Rightarrow> error + 'a list" where
  "collect [] = Inr []"
| "collect (x # xs) =
     (case x of
        Inl e \<Rightarrow> Inl e
      | Inr v \<Rightarrow> (case collect xs of Inl e \<Rightarrow> Inl e | Inr vs \<Rightarrow> Inr (v # vs)))"

record labelled =
  labels :: "string list"

record doughnut = labelled +
  datasets :: "int list"

text \<open>The line chart and the bar chart: labels and one data set for each of the two arrays.\<close>

record series_chart = labelled +
  revenueDataSet :: "int list"
  expensesDataSet :: "int list"

record charts_row =
  chart_id :: object_id
  revenuesAndExpensesLineChart :: series_chart
  expensesDoughnut :: doughnut
  currentMonthExpensesAndRevenuesBarChart :: series_chart

text \<open>
  One data set of the monthly line chart. The comparand \<^verbatim>\<open>months.indexOf('$$month') + 1\<close>
  is computed when the pipeline is built, from the string \<^verbatim>\<open>'$$month'\<close> itself; the
  variable \<open>month\<close> of the \<^verbatim>\<open>$map\<close> does not occur in it.
\<close>

definition monthDataSet :: "string list \<Rightarrow> string list \<Rightarrow> 'a entry_scheme list \<Rightarrow> int list" where
  "monthDataSet months lbls input =
     mongo_map lbls (\<lambda>month.
       mongo_reduce input 0 (\<lambda>value this.
         value +
         mongo_cond
           (mongo_eq (BNumber (mongo_month (date this))) (BNumber (indexOf months ''$$month'' + 1)))
           (amount this) 0))"

definition doughnutDataSet :: "expense list \<Rightarrow> int list" where
  "doughnutDataSet input =
     mongo_map expenseTypes (\<lambda>expenseType.
       mongo_reduce input 0 (\<lambda>value this.
         value +
         mongo_cond (mongo_eq (BString expenseType) (BString (category this))) (amount this) 0))"

text \<open>
  One data set of the bar chart. \<^verbatim>\<open>$toInt\<close> is evaluated at each element of the
  input, so a label that is no integer fails the aggregation only when there is an element.
\<close>

definition dayDataSet :: "string list \<Rightarrow> 'a entry_scheme list \<Rightarrow> error + int list" where
  "dayDataSet dayLabels input =
     collect (mongo_map dayLabels (\<lambda>day.
       mongo_reduce input (Inr 0) (\<lambda>value this.
         case value of
           Inl e \<Rightarrow> Inl e
         | Inr v \<Rightarrow>
             (case mongo_toInt day of
                Inl e \<Rightarrow> Inl e
              | Inr n \<Rightarrow>
                  Inr (v + mongo_cond (mongo_eq (BNumber (mongo_dayOfMonth (date this))) (BNumber n))
                             (amount this) 0)))))"

text \<open>
  The row of the \<^verbatim>\<open>$project\<close> stage for one document. In such a stage a number as
  the value of a field is an inclusion flag, not a literal (a literal is written with
  \<^verbatim>\<open>$literal\<close>): the entry \<^verbatim>\<open>currentMonth\<close> of the bar chart, when it is not 0,
  includes a field the documents do not have, so the row has no such field.
\<close>

definition charts_project ::
  "string list \<Rightarrow> string list \<Rightarrow> string list \<Rightarrow> dashboard \<Rightarrow> error + charts_row" where
  "charts_project months lbls dayLabels d =
     (case dayDataSet dayLabels (revenues d) of
        Inl e \<Rightarrow> Inl e
      | Inr barRevenue \<Rightarrow>
          (case dayDataSet dayLabels (expenses d) of
             Inl e \<Rightarrow> Inl e
           | Inr barExpenses \<Rightarrow>
               Inr \<lparr> chart_id = doc_id d,
                     revenuesAndExpensesLineChart =
                       \<lparr> labels = lbls,
                         revenueDataSet = monthDataSet months lbls (revenues d),
                         expensesDataSet = monthDataSet months lbls (expenses d) \<rparr>,
                     expensesDoughnut =
                       \<lparr> labels = expenseTypes, datasets = doughnutDataSet (expenses d) \<rparr>,
                     currentMonthExpensesAndRevenuesBarChart =
                       \<lparr> labels = dayLabels,
                         revenueDataSet = barRevenue,
                         expensesDataSet = barExpenses \<rparr> \<rparr>))"

text \<open>
  \<^verbatim>\<open>getMonths\<close> and \<^verbatim>\<open>getDaysList\<close> (\<^verbatim>\<open>utils\<close>) are not among the sources: the
  month names \<open>months\<close> and the day labels \<open>dayLabels\<close> are parameters, as is the
  clock \<open>now\<close> (\<^verbatim>\<open>new Date()\<close>). In January \<^verbatim>\<open>currentMonth\<close> is 0, which the
  \<^verbatim>\<open>$project\<close> stage reads as the exclusion of a field; an exclusion beside computed
  fields is refused, and the aggregation fails whatever the collection holds.
\<close>

definition getCharts ::
  "string list \<Rightarrow> string list \<Rightarrow> date_time \<Rightarrow> dashboard list \<Rightarrow> object_id
     \<Rightarrow> charts_filter option \<Rightarrow> error + charts_row list" where
  "getCharts months dayLabels now Dashboard userId flt =
     (let filterOptions = charts_match userId flt;
          cm = getMonth now;
          lbls = take cm months
      in if cm = 0 then Inl InvalidProjection
         else collect (map (charts_project months lbls dayLabels)
                         (filter (matches filterOptions) Dashboard)))"

section \<open>The create operations\<close>

text \<open>The update documents the service sends: \<^verbatim>\<open>{ $addToSet: { <array>: <entry> } }\<close>.\<close>

datatype update =
  AddToSetRevenues revenue
| AddToSetReceivables receivable
| AddToSetExpenses expense

text \<open>\<^verbatim>\<open>$addToSet\<close> appends the value unless the array already holds an equal one.\<close>

definition addToSet :: "'a \<Rightarrow> 'a list \<Rightarrow> 'a list" where
  "addToSet x xs = (if x \<in> set xs then xs else xs @ [x])"

fun apply_update :: "update \<Rightarrow> dashboard \<Rightarrow> dashboard" where
  "apply_update (AddToSetRevenues x) d = d \<lparr> revenues := addToSet x (revenues d) \<rparr>"
| "apply_update (AddToSetReceivables x) d = d \<lparr> receivables := addToSet x (receivables d) \<rparr>"
| "apply_update (AddToSetExpenses x) d = d \<lparr> expenses := addToSet x (expenses d) \<rparr>"

text \<open>
  The schema of the \<^verbatim>\<open>Dashboard\<close> model is not among the sources. The option
  \<^verbatim>\<open>runValidators: true\<close> runs its validators on the entry of the update, so they
  are a parameter: one predicate for each kind of entry.
\<close>

record validators =
  valid_revenue :: "revenue \<Rightarrow> bool"
  valid_receivable :: "receivable \<Rightarrow> bool"
  valid_expense :: "expense \<Rightarrow> bool"

fun runValidators :: "validators \<Rightarrow> update \<Rightarrow> bool" where
  "runValidators schema (AddToSetRevenues x) = valid_revenue schema x"
| "runValidators schema (AddToSetReceivables x) = valid_receivable schema x"
| "runValidators schema (AddToSetExpenses x) = valid_expense schema x"

text \<open>
  The first document whose \<^verbatim>\<open>_id\<close> is the identifier is replaced by its update;
  with \<^verbatim>\<open>new: true\<close> the updated document is returned, and \<open>None\<close>
  (\<^verbatim>\<open>null\<close>) when no document has that \<^verbatim>\<open>_id\<close>.
\<close>

fun update_first :: "object_id \<Rightarrow> update \<Rightarrow> dashboard list \<Rightarrow> dashboard option \<times> dashboard list" where
  "update_first i u [] = (None, [])"
| "update_first i u (d # ds) =
     (if doc_id d = i then (Some (apply_update u d), apply_update u d # ds)
      else (case update_first i u ds of (r, ds') \<Rightarrow> (r, d # ds')))"

definition findByIdAndUpdate ::
  "validators \<Rightarrow> object_id \<Rightarrow> update \<Rightarrow> dashboard list
     \<Rightarrow> (error + dashboard option) \<times> dashboard list" where
  "findByIdAndUpdate schema i u Dashboard =
     (if runValidators schema u then
        (case update_first i u Dashboard of (r, ds) \<Rightarrow> (Inr r, ds))
      else (Inl ValidationError, Dashboard))"

text \<open>The common tail of the three operations: the null check on the returned document.\<close>

definition found_or_throw ::
  "(error + dashboard option) \<times> dashboard list \<Rightarrow> (error + dashboard) \<times> dashboard list" where
  "found_or_throw r =
     (case r of
        (Inl e, ds) \<Rightarrow> (Inl e, ds)
      | (Inr None, ds) \<Rightarrow> (Inl DashboardDataNotFound, ds)
      | (Inr (Some dashboard), ds) \<Rightarrow> (Inr dashboard, ds))"

text \<open>
  \<^verbatim>\<open>UserService.getUserById\<close> is not among the sources, so the lookup is the
  parameter \<open>userLookup\<close>: it returns the user or fails with an error.
\<close>

definition createRevenue ::
  "(object_id \<Rightarrow> error + 'u) \<Rightarrow> validators \<Rightarrow> object_id \<Rightarrow> revenue \<Rightarrow> dashboard list
     \<Rightarrow> (error + dashboard) \<times> dashboard list" where
  "createRevenue userLookup schema userId revenue Dashboard =
     (case userLookup (source revenue) of
        Inl e \<Rightarrow> (Inl e, Dashboard)
      | Inr u \<Rightarrow> found_or_throw (findByIdAndUpdate schema userId (AddToSetRevenues revenue) Dashboard))"

definition createReceivable ::
  "(object_id \<Rightarrow> error + 'u) \<Rightarrow> validators \<Rightarrow> object_id \<Rightarrow> receivable \<Rightarrow> dashboard list
     \<Rightarrow> (error + dashboard) \<times> dashboard list" where
  "createReceivable userLookup schema userId receivable Dashboard =
     (case userLookup (client receivable) of
        Inl e \<Rightarrow> (Inl e, Dashboard)
      | Inr u \<Rightarrow> found_or_throw (findByIdAndUpdate schema userId (AddToSetReceivables receivable) Dashboard))"

definition createExpense ::
  "validators \<Rightarrow> object_id \<Rightarrow> expense \<Rightarrow> dashboard list
     \<Rightarrow> (error + dashboard) \<times> dashboard list" where
  "createExpense schema userId expense Dashboard =
     found_or_throw (findByIdAndUpdate schema userId (AddToSetExpenses expense) Dashboard)"

text \<open>
  The chart data as the specification words them: the entries that contribute are those
  whose date lies within the range, both bounds included; and a bucket of the line chart
  holds the entries whose month number is the index of the label in the list of month
  names.
\<close>

definition within_range :: "charts_filter option \<Rightarrow> date_time \<Rightarrow> bool" where
  "within_range flt dt =
     ((case Option.bind flt startDate of None \<Rightarrow> True | Some s \<Rightarrow> date_le s dt) \<and>
      (case Option.bind flt endDate of None \<Rightarrow> True | Some e \<Rightarrow> date_le dt e))"

definition restricted_to_range :: "charts_filter option \<Rightarrow> dashboard \<Rightarrow> dashboard" where
  "restricted_to_range flt d =
     d \<lparr> revenues := filter (\<lambda>x. within_range flt (date x)) (revenues d),
         expenses := filter (\<lambda>x. within_range flt (date x)) (expenses d) \<rparr>"

definition specified_month_bucket :: "string list \<Rightarrow> string \<Rightarrow> 'a entry_scheme list \<Rightarrow> int" where
  "specified_month_bucket months label input =
     sum_list (map amount (filter (\<lambda>x. mongo_month (date x) = indexOf months label) input))"

section \<open>An environment and sample data\<close>

text \<open>The builder on a call without any filter field: the empty filter object.\<close>

definition no_date_filter :: date_filter_builder where
  "no_date_filter d m y = None"

text \<open>
  Modelled from the spec: \<^verbatim>\<open>UserService.getUserById\<close>, over a directory of the
  existing users' identifiers. It fails with \<open>ReferenceNotFound\<close> when the identifier
  does not resolve to a user.
\<close>

definition getUserById :: "object_id list \<Rightarrow> object_id \<Rightarrow> error + object_id" where
  "getUserById users i = (if i \<in> set users then Inr i else Inl ReferenceNotFound)"

text \<open>A schema without any validator.\<close>

definition no_validators :: validators where
  "no_validators =
     \<lparr> valid_revenue = (\<lambda>x. True), valid_receivable = (\<lambda>x. True), valid_expense = (\<lambda>x. True) \<rparr>"


definition amount_validators :: validators where
  "amount_validators =
     \<lparr> valid_revenue = (\<lambda>x. 0 \<le> amount x), valid_receivable = (\<lambda>x. 0 \<le> amount x),
       valid_expense = (\<lambda>x. 0 \<le> amount x) \<rparr>"

definition months_en :: "string list" where
  "months_en = [''January'', ''February'', ''March'', ''April'', ''May'', ''June'', ''July'',
     ''August'', ''September'', ''October'', ''November'', ''December'']"

definition day_labels :: "string list" where
  "day_labels = [''01'', ''02'', ''03'', ''04'', ''05'', ''06'', ''07'', ''08'', ''09'', ''10'',
     ''11'', ''12'', ''13'', ''14'', ''15'', ''16'', ''17'', ''18'', ''19'', ''20'',
     ''21'', ''22'', ''23'', ''24'', ''25'', ''26'', ''27'', ''28'', ''29'', ''30'', ''31'']"

definition day_of :: "int \<Rightarrow> calendar_month \<Rightarrow> nat \<Rightarrow> date_time" where
  "day_of y m d = \<lparr> dt_year = y, dt_month = m, dt_day = d, dt_millis = 0 \<rparr>"

definition mid_march :: date_time where
  "mid_march = day_of 2024 Mar 15"

definition from_february :: "charts_filter option" where
  "from_february = Some \<lparr> startDate = Some (day_of 2024 Feb 1), endDate = None \<rparr>"

definition revenue_jan :: revenue where
  "revenue_jan = \<lparr> amount = 100, date = day_of 2024 Jan 5, source = ''64f1a2b3c4d5e6f708192a02'' \<rparr>"

definition revenue_mar :: revenue where
  "revenue_mar = \<lparr> amount = 200, date = day_of 2024 Mar 10, source = ''64f1a2b3c4d5e6f708192a02'' \<rparr>"

definition revenue_ghost :: revenue where
  "revenue_ghost = \<lparr> amount = 5, date = day_of 2024 Mar 11, source = ''64f1a2b3c4d5e6f708192aff'' \<rparr>"

definition pending_50 :: receivable where
  "pending_50 = \<lparr> amount = 50, date = day_of 2024 Mar 10, status = ''Pending'', client = ''64f1a2b3c4d5e6f708192a02'' \<rparr>"

definition receivable_ghost :: receivable where
  "receivable_ghost =
     \<lparr> amount = 5, date = day_of 2024 Mar 11, status = ''Paid'', client = ''64f1a2b3c4d5e6f708192aff'' \<rparr>"

definition expense_food_jan :: expense where
  "expense_food_jan = \<lparr> amount = 10, date = day_of 2024 Jan 1, category = ''Food'' \<rparr>"

definition expense_food_mar :: expense where
  "expense_food_mar = \<lparr> amount = 20, date = day_of 2024 Mar 1, category = ''Food'' \<rparr>"

definition expense_gift :: expense where
  "expense_gift = \<lparr> amount = 7, date = day_of 2024 Mar 2, category = ''Gift'' \<rparr>"

text \<open>A record whose \<open>user\<close> field and \<^verbatim>\<open>_id\<close> are the same identifier, ending in \<open>a01\<close>.\<close>

definition dashboard_u1 :: dashboard where
  "dashboard_u1 =
     \<lparr> doc_id = ''64f1a2b3c4d5e6f708192a01'', user = ''64f1a2b3c4d5e6f708192a01'', revenues = [revenue_jan, revenue_mar],
       receivables = [pending_50], expenses = [expense_food_jan, expense_food_mar] \<rparr>"

definition dashboard_new :: dashboard where
  "dashboard_new =
     \<lparr> doc_id = ''64f1a2b3c4d5e6f708192a01'', user = ''64f1a2b3c4d5e6f708192a01'', revenues = [], receivables = [], expenses = [] \<rparr>"

text \<open>A record of the same user under another \<^verbatim>\<open>_id\<close>, ending in \<open>bd1\<close>.\<close>

definition dashboard_pending :: dashboard where
  "dashboard_pending =
     \<lparr> doc_id = ''64f1a2b3c4d5e6f708192bd1'', user = ''64f1a2b3c4d5e6f708192a01'', revenues = [], receivables = [pending_50], expenses = [] \<rparr>"

text \<open>A record of another user, ending in \<open>a09\<close>, whose \<^verbatim>\<open>_id\<close> ends in \<open>a01\<close>.\<close>

definition dashboard_other :: dashboard where
  "dashboard_other =
     \<lparr> doc_id = ''64f1a2b3c4d5e6f708192a01'', user = ''64f1a2b3c4d5e6f708192a09'', revenues = [], receivables = [], expenses = [] \<rparr>"

text \<open>The row of \<open>dashboard_u1\<close> in March.\<close>

definition charts_row_u1 :: charts_row where
  "charts_row_u1 =
     \<lparr> chart_id = ''64f1a2b3c4d5e6f708192a01'',
       revenuesAndExpensesLineChart =
         \<lparr> labels = [''January'', ''February''], revenueDataSet = [0, 0],
           expensesDataSet = [0, 0] \<rparr>,
       expensesDoughnut =
         \<lparr> labels = expenseTypes, datasets = [0, 0, 30, 0, 0] \<rparr>,
       currentMonthExpensesAndRevenuesBarChart =
         \<lparr> labels = day_labels,
           revenueDataSet =
             [0, 0, 0, 0, 100, 0, 0, 0, 0, 200, 0, 0, 0, 0, 0, 0, 0, 0, 0, 0, 0, 0, 0, 0, 0, 0,
              0, 0, 0, 0, 0],
           expensesDataSet =
             [30, 0, 0, 0, 0, 0, 0, 0, 0, 0, 0, 0, 0, 0, 0, 0, 0, 0, 0, 0, 0, 0, 0, 0, 0, 0,
              0, 0, 0, 0, 0] \<rparr> \<rparr>"

section \<open>Lemmas on the operators\<close>

lemma mongo_sum_amounts:
  "mongo_sum (field_path (\<lambda>x. BNumber (f x)) xs) = sum_list (map f xs)"
  by (simp add: field_path_def comp_def)

lemma mongo_eq_strings: "mongo_eq (BString a) (BString b) = (b = a)"
  by (auto simp: mongo_eq_def)

lemma foldl_cond_add:
  "foldl (\<lambda>value this. value + (if P this then f this else 0)) a xs
     = a + sum_list (map f (filter P xs))" for a :: int
  by (induction xs arbitrary: a) simp_all

lemma reduce_cond_add:
  "mongo_reduce input 0 (\<lambda>value this. value + mongo_cond (P this) (f this) 0)
     = sum_list (map f (filter P input))" for f :: "'a \<Rightarrow> int"
  by (simp add: mongo_reduce_def mongo_cond_def foldl_cond_add)

lemma indexOf_absent: "x \<notin> set xs \<Longrightarrow> indexOf xs x = - 1"
  by (induction xs) (auto simp: Let_def)

lemma mongo_month_positive: "1 \<le> mongo_month d"
  by (cases "dt_month d") (simp_all add: mongo_month_def)

lemma collect_map_Inr:
  "collect (map f xs) = Inr ys \<Longrightarrow> \<forall>y\<in>set ys. \<exists>x\<in>set xs. f x = Inr y"
  by (induction xs arbitrary: ys) (auto split: sum.splits)

lemma collect_all_ok:
  "\<forall>x\<in>set xs. \<exists>y. f x = Inr y \<Longrightarrow>
   \<exists>ys. collect (map f xs) = Inr ys \<and> (\<forall>x\<in>set xs. \<exists>y\<in>set ys. f x = Inr y)"
proof (induction xs)
  case Nil
  then show ?case by simp
next
  case (Cons a xs)
  then obtain y where y: "f a = Inr y" by auto
  from Cons obtain ys where ys: "collect (map f xs) = Inr ys"
      "\<forall>x\<in>set xs. \<exists>y\<in>set ys. f x = Inr y"
    by auto
  from y ys have "collect (map f (a # xs)) = Inr (y # ys)" by simp
  moreover from y ys have "\<forall>x\<in>set (a # xs). \<exists>z\<in>set (y # ys). f x = Inr z" by auto
  ultimately show ?case by blast
qed

section \<open>Lemmas on getOverview\<close>

lemma pendingReceivables_zero: "pendingReceivables (overview_project d) = 0"
  by (simp add: overview_project_def mongo_cond_def mongo_eq_def field_path_def)

lemma matches_overview:
  "matches (overview_match cdf userId flt) d =
     (user d = userId \<and>
      (case cdf (Option.bind flt flt_date) (Option.bind flt flt_month) (Option.bind flt flt_year) of
         None \<Rightarrow> True
       | Some q \<Rightarrow> q d))"
  by (simp add: matches_def overview_match_def Let_def split: option.splits)

lemma mc_user_overview_match: "mc_user (overview_match cdf userId flt) = userId"
  by (simp add: overview_match_def Let_def split: option.splits)

lemma getOverview_no_user:
  "\<forall>d\<in>set Dashboard. user d \<noteq> userId \<Longrightarrow> getOverview cdf Dashboard userId flt = []"
  by (simp add: getOverview_def matches_def filter_empty_conv mc_user_overview_match)

lemma getOverview_member:
  assumes "d \<in> set Dashboard" and "user d = userId"
    and "cdf (Option.bind flt flt_date) (Option.bind flt flt_month) (Option.bind flt flt_year) = None"
  shows "overview_project d \<in> set (getOverview cdf Dashboard userId flt)"
proof -
  from assms(2,3) have "matches (overview_match cdf userId flt) d"
    by (simp add: matches_overview)
  with assms(1) show ?thesis
    by (simp add: getOverview_def)
qed

section \<open>Lemmas on getCharts\<close>

lemma monthDataSet_sums:
  "monthDataSet months lbls input
     = map (\<lambda>label. sum_list (map amount
              (filter (\<lambda>x. mongo_month (date x) = indexOf months ''$$month'' + 1) input))) lbls"
  by (simp add: monthDataSet_def mongo_map_def mongo_eq_def reduce_cond_add)

lemma doughnutDataSet_sums:
  "doughnutDataSet input
     = map (\<lambda>c. sum_list (map amount (filter (\<lambda>e. category e = c) input))) expenseTypes"
  by (simp add: doughnutDataSet_def mongo_map_def reduce_cond_add mongo_eq_strings)

lemma monthDataSet_zero:
  fixes input :: "'a entry_scheme list"
  assumes "''$$month'' \<notin> set months"
  shows "monthDataSet months lbls input = replicate (length lbls) 0"
proof -
  have "mongo_month (date x) \<noteq> indexOf months ''$$month'' + 1" for x :: "'a entry_scheme"
    using mongo_month_positive [of "date x"] indexOf_absent [OF assms]
    by simp
  then have "filter (\<lambda>x. mongo_month (date x) = indexOf months ''$$month'' + 1) input = []"
    by simp
  then show ?thesis
    by (simp add: monthDataSet_sums map_replicate_const)
qed

lemma day_reduce_ok:
  assumes "mongo_toInt day = Inr n"
  shows "\<exists>w. foldl (\<lambda>value this.
            case value of
              Inl e \<Rightarrow> Inl e
            | Inr v \<Rightarrow>
                (case mongo_toInt day of
                   Inl e \<Rightarrow> Inl e
                 | Inr n \<Rightarrow>
                     Inr (v + mongo_cond (mongo_eq (BNumber (mongo_dayOfMonth (date this))) (BNumber n))
                                (amount this) 0))) (Inr v) input = Inr w"
  using assms by (induction input arbitrary: v) simp_all

lemma dayDataSet_ok:
  assumes "\<forall>l\<in>set dayLabels. \<exists>n. mongo_toInt l = Inr n"
  shows "\<exists>vs. dayDataSet dayLabels input = Inr vs"
proof -
  have "\<forall>day\<in>set dayLabels. \<exists>w. mongo_reduce input (Inr 0) (\<lambda>value this.
            case value of
              Inl e \<Rightarrow> Inl e
            | Inr v \<Rightarrow>
                (case mongo_toInt day of
                   Inl e \<Rightarrow> Inl e
                 | Inr n \<Rightarrow>
                     Inr (v + mongo_cond (mongo_eq (BNumber (mongo_dayOfMonth (date this))) (BNumber n))
                                (amount this) 0))) = Inr w"
    using assms day_reduce_ok unfolding mongo_reduce_def by blast
  from collect_all_ok [OF this] show ?thesis
    unfolding dayDataSet_def mongo_map_def by blast
qed

lemma charts_project_ok:
  assumes "\<forall>l\<in>set dayLabels. \<exists>n. mongo_toInt l = Inr n"
  shows "\<exists>row. charts_project months lbls dayLabels d = Inr row"
proof -
  from dayDataSet_ok [OF assms] obtain a where a: "dayDataSet dayLabels (revenues d) = Inr a"
    by blast
  from dayDataSet_ok [OF assms] obtain b where b: "dayDataSet dayLabels (expenses d) = Inr b"
    by blast
  from a b show ?thesis
    by (simp add: charts_project_def)
qed

lemma charts_project_Inr:
  assumes "charts_project months lbls dayLabels d = Inr row"
  shows "chart_id row = doc_id d"
    and "revenuesAndExpensesLineChart row =
           \<lparr> labels = lbls, revenueDataSet = monthDataSet months lbls (revenues d),
             expensesDataSet = monthDataSet months lbls (expenses d) \<rparr>"
    and "expensesDoughnut row = \<lparr> labels = expenseTypes, datasets = doughnutDataSet (expenses d) \<rparr>"
  using assms by (auto simp: charts_project_def split: sum.splits)

lemma mc_user_charts_match: "mc_user (charts_match userId flt) = userId"
  by (simp add: charts_match_def Let_def split: option.splits)

lemma matches_user: "matches (charts_match userId flt) d \<Longrightarrow> user d = userId"
  by (simp add: matches_def mc_user_charts_match)

lemma matches_charts:
  "matches (charts_match userId flt) d =
     (user d = userId \<and>
      (case Option.bind flt startDate of
         None \<Rightarrow> True
       | Some s \<Rightarrow> (\<exists>x\<in>set (revenues d). date_le s (date x))
                 \<and> (\<exists>x\<in>set (expenses d). date_le s (date x))) \<and>
      (case Option.bind flt endDate of
         None \<Rightarrow> True
       | Some e \<Rightarrow> (\<exists>x\<in>set (revenues d). date_le (date x) e)
                 \<and> (\<exists>x\<in>set (expenses d). date_le (date x) e)))"
  by (auto simp: matches_def charts_match_def Let_def path_gte_def path_lte_def list_ex_iff
      split: option.splits)

lemma getCharts_january:
  "getMonth now = 0 \<Longrightarrow> getCharts months dayLabels now Dashboard userId flt = Inl InvalidProjection"
  by (simp add: getCharts_def Let_def)

lemma getCharts_rows:
  assumes "getCharts months dayLabels now Dashboard userId flt = Inr rows" and "row \<in> set rows"
  shows "\<exists>d\<in>set Dashboard. matches (charts_match userId flt) d \<and>
           charts_project months (take (getMonth now) months) dayLabels d = Inr row"
proof -
  from assms(1) have "collect (map (charts_project months (take (getMonth now) months) dayLabels)
      (filter (matches (charts_match userId flt)) Dashboard)) = Inr rows"
    by (simp add: getCharts_def Let_def split: if_splits)
  from collect_map_Inr [OF this] assms(2) show ?thesis
    by auto
qed

lemma getCharts_ok:
  assumes "\<forall>l\<in>set dayLabels. \<exists>n. mongo_toInt l = Inr n" and "getMonth now \<noteq> 0"
    and "d \<in> set Dashboard" and "matches (charts_match userId flt) d"
  shows "\<exists>rows. getCharts months dayLabels now Dashboard userId flt = Inr rows \<and>
           (\<exists>row\<in>set rows.
              charts_project months (take (getMonth now) months) dayLabels d = Inr row)"
proof -
  have "\<forall>x\<in>set (filter (matches (charts_match userId flt)) Dashboard).
          \<exists>y. charts_project months (take (getMonth now) months) dayLabels x = Inr y"
    using charts_project_ok [OF assms(1)] by blast
  from collect_all_ok [OF this] obtain rows where
      r: "collect (map (charts_project months (take (getMonth now) months) dayLabels)
            (filter (matches (charts_match userId flt)) Dashboard)) = Inr rows"
      and m: "\<forall>x\<in>set (filter (matches (charts_match userId flt)) Dashboard). \<exists>y\<in>set rows.
            charts_project months (take (getMonth now) months) dayLabels x = Inr y"
    by blast
  from r assms(2) have "getCharts months dayLabels now Dashboard userId flt = Inr rows"
    by (simp add: getCharts_def Let_def)
  moreover from m assms(3,4) have "\<exists>row\<in>set rows.
      charts_project months (take (getMonth now) months) dayLabels d = Inr row"
    by simp
  ultimately show ?thesis by blast
qed

lemma getCharts_no_user:
  assumes "\<forall>d\<in>set Dashboard. user d \<noteq> userId" and "getMonth now \<noteq> 0"
  shows "getCharts months dayLabels now Dashboard userId flt = Inr []"
proof -
  from assms(1) have "filter (matches (charts_match userId flt)) Dashboard = []"
    by (simp add: filter_empty_conv matches_def mc_user_charts_match)
  with assms(2) show ?thesis
    by (simp add: getCharts_def Let_def)
qed

lemma doughnut_of_rows:
  assumes "getCharts months dayLabels now Dashboard userId flt = Inr rows" and "row \<in> set rows"
  shows "labels (expensesDoughnut row) = expenseTypes"
    and "\<exists>d\<in>set Dashboard. user d = userId \<and> doc_id d = chart_id row
            \<and> datasets (expensesDoughnut row)
                = map (\<lambda>c. sum_list (map amount (filter (\<lambda>e. category e = c) (expenses d))))
                    expenseTypes"
proof -
  from getCharts_rows [OF assms] obtain d where d: "d \<in> set Dashboard"
      "matches (charts_match userId flt) d"
      "charts_project months (take (getMonth now) months) dayLabels d = Inr row"
    by blast
  from charts_project_Inr(3) [OF d(3)] show "labels (expensesDoughnut row) = expenseTypes"
    by simp
  from charts_project_Inr(1,3) [OF d(3)] matches_user [OF d(2)] d(1)
  show "\<exists>d\<in>set Dashboard. user d = userId \<and> doc_id d = chart_id row
            \<and> datasets (expensesDoughnut row)
                = map (\<lambda>c. sum_list (map amount (filter (\<lambda>e. category e = c) (expenses d))))
                    expenseTypes"
    by (auto simp: doughnutDataSet_sums)
qed

lemma doughnut_without_expenses:
  assumes "d0 \<in> set Dashboard" and "user d0 = userId" and "expenses d0 = []"
    and "\<forall>l\<in>set dayLabels. \<exists>n. mongo_toInt l = Inr n" and "getMonth now \<noteq> 0"
  shows "\<exists>rows0. getCharts months dayLabels now Dashboard userId None = Inr rows0
         \<and> (\<exists>row0\<in>set rows0. chart_id row0 = doc_id d0
               \<and> labels (expensesDoughnut row0) = expenseTypes
               \<and> datasets (expensesDoughnut row0) = [0, 0, 0, 0, 0])"
proof -
  from assms(2) have m: "matches (charts_match userId None) d0"
    by (simp add: matches_charts)
  from getCharts_ok [OF assms(4,5,1) m, of months] obtain rows0 row0 where
      r: "getCharts months dayLabels now Dashboard userId None = Inr rows0" "row0 \<in> set rows0"
        "charts_project months (take (getMonth now) months) dayLabels d0 = Inr row0"
    by blast
  from charts_project_Inr(1,3) [OF r(3)] assms(3) have "chart_id row0 = doc_id d0
               \<and> labels (expensesDoughnut row0) = expenseTypes
               \<and> datasets (expensesDoughnut row0) = [0, 0, 0, 0, 0]"
    by (simp add: doughnutDataSet_sums expenseTypes_def)
  with r(1,2) show ?thesis
    by blast
qed

lemma day_labels_convert: "\<forall>l\<in>set day_labels. \<exists>n. mongo_toInt l = Inr n"
  unfolding day_labels_def by (simp add: mongo_toInt_def digit_of_def)

lemma getMonth_mid_march: "getMonth mid_march = 2"
  by (simp add: getMonth_def mid_march_def day_of_def)

lemma getCharts_sample:
  "getCharts months_en day_labels mid_march [dashboard_u1] ''64f1a2b3c4d5e6f708192a01'' None = Inr [charts_row_u1]"
  by code_simp

lemma getCharts_sample_from_february:
  "getCharts months_en day_labels mid_march [dashboard_u1] ''64f1a2b3c4d5e6f708192a01'' from_february
     = Inr [charts_row_u1]"
  by code_simp

section \<open>Lemmas on the create operations\<close>

lemma doc_id_apply_update: "doc_id (apply_update u d) = doc_id d"
  by (cases u) simp_all

lemma addToSet_idem: "addToSet x (addToSet x xs) = addToSet x xs"
  by (simp add: addToSet_def)

lemma apply_update_idem: "apply_update u (apply_update u d) = apply_update u d"
  by (cases u) (simp_all add: addToSet_idem)

lemma update_first_absent:
  "\<forall>d\<in>set ds. doc_id d \<noteq> i \<Longrightarrow> update_first i u ds = (None, ds)"
  by (induction ds) simp_all

lemma update_first_found:
  "find (\<lambda>x. doc_id x = i) ds = Some d \<Longrightarrow>
   \<exists>ds'. update_first i u ds = (Some (apply_update u d), ds')
         \<and> find (\<lambda>x. doc_id x = i) ds' = Some (apply_update u d)"
  by (induction ds) (auto simp: doc_id_apply_update split: if_splits prod.splits)

lemma update_first_twice:
  "update_first i u ds = (r, ds') \<Longrightarrow> update_first i u ds' = (r, ds')"
proof (induction ds arbitrary: ds' r)
  case Nil
  then show ?case by simp
next
  case (Cons d ds)
  show ?case
  proof (cases "doc_id d = i")
    case True
    with Cons.prems have "r = Some (apply_update u d)" "ds' = apply_update u d # ds"
      by simp_all
    then show ?thesis
      by (simp add: doc_id_apply_update apply_update_idem True)
  next
    case False
    obtain q qs where uf: "update_first i u ds = (q, qs)"
      by (cases "update_first i u ds")
    with False Cons.prems have "r = q" "ds' = d # qs"
      by simp_all
    with False Cons.IH [OF uf] show ?thesis
      by simp
  qed
qed

lemma findByIdAndUpdate_twice:
  "findByIdAndUpdate schema i u ds = (r, ds') \<Longrightarrow> findByIdAndUpdate schema i u ds' = (r, ds')"
proof (cases "runValidators schema u")
  case True
  obtain q qs where uf: "update_first i u ds = (q, qs)"
    by (cases "update_first i u ds")
  assume "findByIdAndUpdate schema i u ds = (r, ds')"
  with True uf have "r = Inr q" "ds' = qs"
    by (simp_all add: findByIdAndUpdate_def)
  with True update_first_twice [OF uf] show ?thesis
    by (simp add: findByIdAndUpdate_def)
next
  case False
  assume "findByIdAndUpdate schema i u ds = (r, ds')"
  with False show ?thesis
    by (simp add: findByIdAndUpdate_def)
qed

lemma findByIdAndUpdate_absent:
  "runValidators schema u \<Longrightarrow> \<forall>d\<in>set ds. doc_id d \<noteq> i \<Longrightarrow>
   findByIdAndUpdate schema i u ds = (Inr None, ds)"
  by (simp add: findByIdAndUpdate_def update_first_absent)

lemma findByIdAndUpdate_found:
  assumes "runValidators schema u" and "find (\<lambda>x. doc_id x = i) ds = Some d"
  shows "\<exists>ds'. findByIdAndUpdate schema i u ds = (Inr (Some (apply_update u d)), ds')
           \<and> find (\<lambda>x. doc_id x = i) ds' = Some (apply_update u d)"
proof -
  from update_first_found [OF assms(2), of u] obtain ds'
    where "update_first i u ds = (Some (apply_update u d), ds')"
      and "find (\<lambda>x. doc_id x = i) ds' = Some (apply_update u d)"
    by blast
  with assms(1) show ?thesis
    by (simp add: findByIdAndUpdate_def)
qed

lemma found_or_throw_simps:
  "found_or_throw (Inl e, ds) = (Inl e, ds)"
  "found_or_throw (Inr None, ds) = (Inl DashboardDataNotFound, ds)"
  "found_or_throw (Inr (Some d), ds) = (Inr d, ds)"
  by (simp_all add: found_or_throw_def)

lemma snd_found_or_throw: "snd (found_or_throw (r, ds)) = ds"
  by (simp add: found_or_throw_def split: sum.splits option.splits)

lemma createExpense_again:
  assumes "createExpense schema userId expense Dashboard = (r1, D1)"
  shows "createExpense schema userId expense D1 = (r1, D1)"
proof -
  obtain r ds where f: "findByIdAndUpdate schema userId (AddToSetExpenses expense) Dashboard = (r, ds)"
    by (cases "findByIdAndUpdate schema userId (AddToSetExpenses expense) Dashboard")
  from assms f have res: "found_or_throw (r, ds) = (r1, D1)"
    by (simp add: createExpense_def)
  then have "D1 = ds"
    using snd_found_or_throw [of r ds] by simp
  with findByIdAndUpdate_twice [OF f]
  have "findByIdAndUpdate schema userId (AddToSetExpenses expense) D1 = (r, ds)"
    by simp
  with res show ?thesis
    by (simp add: createExpense_def)
qed

lemma update_first_Some:
  "update_first i u ds = (Some d1, ds') \<Longrightarrow>
   \<exists>ys d zs. ds = ys @ d # zs \<and> (\<forall>y\<in>set ys. doc_id y \<noteq> i) \<and> doc_id d = i
      \<and> d1 = apply_update u d \<and> ds' = ys @ d1 # zs"
proof (induction ds arbitrary: ds')
  case Nil
  then show ?case by simp
next
  case (Cons a ds)
  show ?case
  proof (cases "doc_id a = i")
    case True
    with Cons.prems have "d1 = apply_update u a" "ds' = apply_update u a # ds"
      by auto
    with True have "a # ds = [] @ a # ds \<and> (\<forall>y\<in>set []. doc_id y \<noteq> i) \<and> doc_id a = i
        \<and> d1 = apply_update u a \<and> ds' = [] @ d1 # ds"
      by simp
    then show ?thesis by blast
  next
    case False
    obtain q qs where uf: "update_first i u ds = (q, qs)"
      by (cases "update_first i u ds")
    with False Cons.prems have q: "q = Some d1" "ds' = a # qs"
      by simp_all
    from Cons.IH [of qs] uf q obtain ys d zs where
      h: "ds = ys @ d # zs" "\<forall>y\<in>set ys. doc_id y \<noteq> i" "doc_id d = i"
         "d1 = apply_update u d" "qs = ys @ d1 # zs"
      by blast
    with False q have "a # ds = (a # ys) @ d # zs \<and> (\<forall>y\<in>set (a # ys). doc_id y \<noteq> i)
        \<and> doc_id d = i \<and> d1 = apply_update u d \<and> ds' = (a # ys) @ d1 # zs"
      by simp
    then show ?thesis by blast
  qed
qed

lemma update_first_at:
  "\<forall>y\<in>set ys. doc_id y \<noteq> i \<Longrightarrow> doc_id d = i \<Longrightarrow>
   update_first i u (ys @ d # zs) = (Some (apply_update u d), ys @ apply_update u d # zs)"
  by (induction ys) simp_all

lemma update_first_present:
  assumes "\<exists>x\<in>set ds. doc_id x = i"
  shows "\<exists>d1 ds'. update_first i u ds = (Some d1, ds')"
proof -
  from split_list_first_prop [OF assms] obtain ys d zs where
      "ds = ys @ d # zs" "doc_id d = i" "\<forall>y\<in>set ys. doc_id y \<noteq> i"
    by blast
  with update_first_at [of ys i d u zs] show ?thesis
    by simp
qed

lemma found_update_Inr:
  assumes "found_or_throw (findByIdAndUpdate schema i u D) = (Inr d1, D1)"
  shows "runValidators schema u"
    and "\<exists>ys d zs. D = ys @ d # zs \<and> (\<forall>y\<in>set ys. doc_id y \<noteq> i) \<and> doc_id d = i
           \<and> d1 = apply_update u d \<and> D1 = ys @ d1 # zs"
    and "found_or_throw (findByIdAndUpdate schema i u D1) = (Inr d1, D1)"
proof -
  show v: "runValidators schema u"
  proof (rule ccontr)
    assume "\<not> runValidators schema u"
    with assms show False
      by (simp add: findByIdAndUpdate_def found_or_throw_simps)
  qed
  obtain q qs where uf: "update_first i u D = (q, qs)"
    by (cases "update_first i u D")
  with v assms have q: "q = Some d1" "qs = D1"
    by (cases q; simp add: findByIdAndUpdate_def found_or_throw_simps)+
  from update_first_Some [of i u D d1 D1] uf q
  show "\<exists>ys d zs. D = ys @ d # zs \<and> (\<forall>y\<in>set ys. doc_id y \<noteq> i) \<and> doc_id d = i
           \<and> d1 = apply_update u d \<and> D1 = ys @ d1 # zs"
    by simp
  from update_first_twice [OF uf] q v
  show "found_or_throw (findByIdAndUpdate schema i u D1) = (Inr d1, D1)"
    by (simp add: findByIdAndUpdate_def found_or_throw_simps)
qed



lemma count_list_snoc_new: "x \<notin> set xs \<Longrightarrow> count_list (xs @ [x]) x = 1"
  by (induction xs) auto

lemma found_update_again:
  assumes "found_or_throw (findByIdAndUpdate schema i u D) = (r1, D1)"
  shows "found_or_throw (findByIdAndUpdate schema i u D1) = (r1, D1)"
proof -
  obtain r ds where f: "findByIdAndUpdate schema i u D = (r, ds)"
    by (cases "findByIdAndUpdate schema i u D")
  from assms f have res: "found_or_throw (r, ds) = (r1, D1)"
    by simp
  then have "D1 = ds"
    using snd_found_or_throw [of r ds] by simp
  with findByIdAndUpdate_twice [OF f] have "findByIdAndUpdate schema i u D1 = (r, ds)"
    by simp
  with res show ?thesis
    by simp
qed

lemma createRevenue_again:
  assumes "createRevenue userLookup schema userId revenue Dashboard = (r1, D1)"
  shows "createRevenue userLookup schema userId revenue D1 = (r1, D1)"
proof (cases "userLookup (source revenue)")
  case (Inl e)
  with assms show ?thesis
    by (auto simp: createRevenue_def)
next
  case (Inr u)
  with assms found_update_again [of schema userId "AddToSetRevenues revenue" Dashboard r1 D1]
  show ?thesis
    by (simp add: createRevenue_def)
qed

lemma createReceivable_again:
  assumes "createReceivable userLookup schema userId receivable Dashboard = (r1, D1)"
  shows "createReceivable userLookup schema userId receivable D1 = (r1, D1)"
proof (cases "userLookup (client receivable)")
  case (Inl e)
  with assms show ?thesis
    by (auto simp: createReceivable_def)
next
  case (Inr u)
  with assms found_update_again [of schema userId "AddToSetReceivables receivable" Dashboard r1 D1]
  show ?thesis
    by (simp add: createReceivable_def)
qed

lemma createRevenue_Inr:
  assumes "createRevenue userLookup schema userId revenue Dashboard = (Inr d1, D1)"
  shows "found_or_throw (findByIdAndUpdate schema userId (AddToSetRevenues revenue) Dashboard)
           = (Inr d1, D1)"
  using assms by (cases "userLookup (source revenue)") (auto simp: createRevenue_def)

lemma createReceivable_Inr:
  assumes "createReceivable userLookup schema userId receivable Dashboard = (Inr d1, D1)"
  shows "found_or_throw (findByIdAndUpdate schema userId (AddToSetReceivables receivable) Dashboard)
           = (Inr d1, D1)"
  using assms by (cases "userLookup (client receivable)") (auto simp: createReceivable_def)

lemma addToSet_facts:
  "addToSet x xs = (if x \<in> set xs then xs else xs @ [x])"
  "x \<notin> set xs \<Longrightarrow> count_list (addToSet x xs) x = 1"
  "xs = [] \<Longrightarrow> addToSet x xs = [x]"
  by (simp_all add: addToSet_def count_list_snoc_new)

lemma found_update_present:
  assumes "runValidators schema u" and "\<exists>x\<in>set D. doc_id x = i"
  shows "\<exists>d D'. found_or_throw (findByIdAndUpdate schema i u D) = (Inr d, D')"
proof -
  from update_first_present [OF assms(2), of u] obtain d1 ds' where
      "update_first i u D = (Some d1, ds')"
    by blast
  with assms(1) show ?thesis
    by (simp add: findByIdAndUpdate_def found_or_throw_simps)
qed

section \<open>What the operations compute\<close>

text \<open>
  The rows of \<open>getOverview\<close> are those of the records whose \<open>user\<close> field is \<open>userId\<close>
  and which satisfy the date filter as a condition on the whole record; three of the
  four totals are sums over all entries of the record.
\<close>

lemma getOverview_totals:
  "map (\<lambda>r. (row_id r, totalRevenue r, totalReceivables r, totalExpenses r))
       (getOverview cdf Dashboard userId flt)
   = map (\<lambda>d. (doc_id d, sum_list (map amount (revenues d)),
                sum_list (map amount (receivables d)), sum_list (map amount (expenses d))))
       (filter (\<lambda>d. user d = userId \<and>
                  (case cdf (Option.bind flt flt_date) (Option.bind flt flt_month)
                          (Option.bind flt flt_year) of
                     None \<Rightarrow> True
                   | Some q \<Rightarrow> q d))
          Dashboard)"
proof -
  have sel: "matches (overview_match cdf userId flt) =
      (\<lambda>d. user d = userId \<and>
         (case cdf (Option.bind flt flt_date) (Option.bind flt flt_month)
                 (Option.bind flt flt_year) of
            None \<Rightarrow> True
          | Some q \<Rightarrow> q d))"
    by (rule ext) (rule matches_overview)
  show ?thesis
    unfolding getOverview_def sel
    by (simp add: overview_project_def mongo_sum_amounts comp_def)
qed

text \<open>
  Each bucket of the monthly line chart sums the entries whose month number is
  \<^verbatim>\<open>months.indexOf('$$month') + 1\<close>, whatever the label.
\<close>

lemma line_chart_buckets:
  assumes "getCharts months dayLabels now Dashboard userId flt = Inr rows" and "row \<in> set rows"
  shows "\<exists>d\<in>set Dashboard. user d = userId \<and> doc_id d = chart_id row
           \<and> labels (revenuesAndExpensesLineChart row) = take (getMonth now) months
           \<and> revenueDataSet (revenuesAndExpensesLineChart row)
               = map (\<lambda>label. sum_list (map amount
                        (filter (\<lambda>x. mongo_month (date x) = indexOf months ''$$month'' + 1)
                           (revenues d))))
                   (labels (revenuesAndExpensesLineChart row))
           \<and> expensesDataSet (revenuesAndExpensesLineChart row)
               = map (\<lambda>label. sum_list (map amount
                        (filter (\<lambda>x. mongo_month (date x) = indexOf months ''$$month'' + 1)
                           (expenses d))))
                   (labels (revenuesAndExpensesLineChart row))"
proof -
  from getCharts_rows [OF assms] obtain d where d: "d \<in> set Dashboard"
      "matches (charts_match userId flt) d"
      "charts_project months (take (getMonth now) months) dayLabels d = Inr row"
    by blast
  from charts_project_Inr(1,2) [OF d(3)] matches_user [OF d(2)] d(1) show ?thesis
    by (auto simp: monthDataSet_sums)
qed

text \<open>
  Without a record under the \<^verbatim>\<open>_id\<close> the create operations fail with
  \<open>DashboardDataNotFound\<close>, once the reference resolves and the validators accept;
  without a record under the \<open>user\<close> field the read operations return the empty result,
  \<open>getCharts\<close> outside January.
\<close>

lemma create_without_record:
  "((\<forall>d\<in>set Dashboard. doc_id d \<noteq> userId) \<longrightarrow>
      (valid_expense schema expense \<longrightarrow>
         createExpense schema userId expense Dashboard = (Inl DashboardDataNotFound, Dashboard))
      \<and> (userLookup (source revenue) = Inr u \<and> valid_revenue schema revenue \<longrightarrow>
         createRevenue userLookup schema userId revenue Dashboard
           = (Inl DashboardDataNotFound, Dashboard))
      \<and> (userLookup (client receivable) = Inr u \<and> valid_receivable schema receivable \<longrightarrow>
         createReceivable userLookup schema userId receivable Dashboard
           = (Inl DashboardDataNotFound, Dashboard)))
   \<and> ((\<forall>d\<in>set Dashboard. user d \<noteq> userId) \<longrightarrow>
      getOverview cdf Dashboard userId flt = []
      \<and> (getMonth now \<noteq> 0 \<longrightarrow>
           getCharts months dayLabels now Dashboard userId cflt = Inr []))"
  by (simp add: createExpense_def createRevenue_def createReceivable_def
      findByIdAndUpdate_absent found_or_throw_simps getOverview_no_user getCharts_no_user)

section \<open>Claims about getOverview\<close>

text \<open>
  C1: \<open>pendingReceivables\<close> is to be the sum of the amounts of the receivable entries
  whose status is \<^verbatim>\<open>"Pending"\<close>. For a record with one pending receivable of 50 and
  no filter, the code returns 0: the condition compares the whole array
  \<^verbatim>\<open>'$receivables.status'\<close> with the string, which never holds. The other three
  totals of the row are as specified.
\<close>

theorem getOverview_pending_receivable_lost:
  "ObjectId ''64f1a2b3c4d5e6f708192a01'' = Inr ''64f1a2b3c4d5e6f708192a01''
   \<and> getOverview no_date_filter [dashboard_pending] ''64f1a2b3c4d5e6f708192a01'' None
       = [(specified_overview None dashboard_pending) \<lparr> pendingReceivables := 0 \<rparr>]
   \<and> pendingReceivables (specified_overview None dashboard_pending) = 50"
  by (simp add: ObjectId_def hex_digit_def getOverview_def matches_overview no_date_filter_def
      dashboard_pending_def pending_50_def overview_project_def specified_overview_def
      filter_predicate_def mongo_cond_def mongo_eq_def field_path_def)

section \<open>Claims about getCharts\<close>

text \<open>
  C2: the buckets of the monthly line chart are to follow the label: by the claim, a
  bucket holds the entries whose month number is the index of the label among the month
  names. In March, for a record with a revenue of 100 in January, the labels are
  January and February and the claim puts the 100 under February (index 1); the code
  returns 0 for both, since its comparand is computed from the string
  \<^verbatim>\<open>'$$month'\<close> and not from the label.
\<close>

theorem line_chart_in_march:
  "ObjectId ''64f1a2b3c4d5e6f708192a01'' = Inr ''64f1a2b3c4d5e6f708192a01''
   \<and> getCharts months_en day_labels mid_march [dashboard_u1] ''64f1a2b3c4d5e6f708192a01'' None
       = Inr [charts_row_u1]
   \<and> labels (revenuesAndExpensesLineChart charts_row_u1) = [''January'', ''February'']
   \<and> revenueDataSet (revenuesAndExpensesLineChart charts_row_u1) = [0, 0]
   \<and> revenues dashboard_u1 = [revenue_jan, revenue_mar]
   \<and> amount revenue_jan = 100 \<and> mongo_month (date revenue_jan) = 1
   \<and> specified_month_bucket months_en ''January'' (revenues dashboard_u1) = 0
   \<and> specified_month_bucket months_en ''February'' (revenues dashboard_u1) = 100"
proof -
  have "specified_month_bucket months_en ''January'' (revenues dashboard_u1) = 0"
    by code_simp
  moreover have "specified_month_bucket months_en ''February'' (revenues dashboard_u1) = 100"
    by code_simp
  moreover have "ObjectId ''64f1a2b3c4d5e6f708192a01'' = Inr ''64f1a2b3c4d5e6f708192a01''"
    by (simp add: ObjectId_def hex_digit_def)
  moreover have "revenues dashboard_u1 = [revenue_jan, revenue_mar]"
    by (simp add: dashboard_u1_def)
  moreover have "amount revenue_jan = 100 \<and> mongo_month (date revenue_jan) = 1"
    by (simp add: revenue_jan_def mongo_month_def day_of_def)
  ultimately show ?thesis
    by (simp add: getCharts_sample charts_row_u1_def)
qed

text \<open>
  C3: when the string \<^verbatim>\<open>'$$month'\<close> is not itself a month name, as in every list of
  month names, the comparand \<^verbatim>\<open>months.indexOf('$$month') + 1\<close> is 0 and no month
  number equals it: in every row that \<open>getCharts\<close> returns, for every matched record
  and every filter, each element of \<open>revenueDataSet\<close> and of \<open>expensesDataSet\<close> of the
  monthly line chart is 0, one for each label.
\<close>

theorem line_chart_all_zero:
  assumes "''$$month'' \<notin> set months"
    and "getCharts months dayLabels now Dashboard userId flt = Inr rows" and "row \<in> set rows"
  shows "revenueDataSet (revenuesAndExpensesLineChart row)
           = replicate (length (labels (revenuesAndExpensesLineChart row))) 0
       \<and> expensesDataSet (revenuesAndExpensesLineChart row)
           = replicate (length (labels (revenuesAndExpensesLineChart row))) 0
       \<and> (\<forall>v\<in>set (revenueDataSet (revenuesAndExpensesLineChart row)). v = 0)
       \<and> (\<forall>v\<in>set (expensesDataSet (revenuesAndExpensesLineChart row)). v = 0)"
proof -
  from getCharts_rows [OF assms(2,3)] obtain d where
      "charts_project months (take (getMonth now) months) dayLabels d = Inr row"
    by blast
  from charts_project_Inr(2) [OF this] show ?thesis
    by (simp add: monthDataSet_zero [OF assms(1)])
qed

theorem line_chart_all_zero_witness:
  "''$$month'' \<notin> set months_en
   \<and> getCharts months_en day_labels mid_march [dashboard_u1] ''64f1a2b3c4d5e6f708192a01'' None = Inr [charts_row_u1]
   \<and> revenueDataSet (revenuesAndExpensesLineChart charts_row_u1) = [0, 0]
   \<and> expensesDataSet (revenuesAndExpensesLineChart charts_row_u1) = [0, 0]"
proof -
  have a: "''$$month'' \<notin> set months_en" by (simp add: months_en_def)
  have b: "charts_row_u1 \<in> set [charts_row_u1]" by simp
  have c: "length (labels (revenuesAndExpensesLineChart charts_row_u1)) = 2"
    by (simp add: charts_row_u1_def)
  from line_chart_all_zero [OF a getCharts_sample b] a getCharts_sample c show ?thesis
    by (simp add: numeral_2_eq_2)
qed

text \<open>
  C4, as stated, fails: with a start date of 1 February the record is selected, and its
  expense of 1 January, which lies outside the range, still counts: the doughnut value
  of Food is 30, where the entries within the range give 20.
\<close>

theorem getCharts_range_counterexample:
  "getCharts months_en day_labels mid_march [dashboard_u1] ''64f1a2b3c4d5e6f708192a01'' from_february
     = Inr [charts_row_u1]
   \<and> datasets (expensesDoughnut charts_row_u1) = [0, 0, 30, 0, 0]
   \<and> expense_food_jan \<in> set (expenses dashboard_u1)
   \<and> \<not> within_range from_february (date expense_food_jan)
   \<and> doughnutDataSet (expenses (restricted_to_range from_february dashboard_u1))
       = [0, 0, 20, 0, 0]"
proof -
  have "doughnutDataSet (expenses (restricted_to_range from_february dashboard_u1))
       = [0, 0, 20, 0, 0]"
    by code_simp
  moreover have "\<not> within_range from_february (date expense_food_jan)"
    by (simp add: within_range_def from_february_def expense_food_jan_def day_of_def date_le_def)
  moreover have "datasets (expensesDoughnut charts_row_u1) = [0, 0, 30, 0, 0]"
    by (simp add: charts_row_u1_def)
  moreover have "expense_food_jan \<in> set (expenses dashboard_u1)"
    by (simp add: dashboard_u1_def)
  ultimately show ?thesis
    using getCharts_sample_from_february by simp
qed

text \<open>
  C4, amended: a \<open>startDate\<close> and/or \<open>endDate\<close> restricts the records, not their
  entries. A record is selected when it has some revenue entry and some expense entry
  with \<open>date \<ge> startDate\<close> (if given), and some revenue entry and some expense entry
  with \<open>date \<le> endDate\<close> (if given), both bounds inclusive; the result is that of the
  call without a filter on the selected records, so that all revenue and expense
  entries of a selected record contribute to its data sets.
\<close>

theorem getCharts_range_selects_records:
  "getCharts months dayLabels now Dashboard userId flt
     = getCharts months dayLabels now
         (filter (\<lambda>d.
            (case Option.bind flt startDate of
               None \<Rightarrow> True
             | Some s \<Rightarrow> (\<exists>x\<in>set (revenues d). date_le s (date x))
                       \<and> (\<exists>x\<in>set (expenses d). date_le s (date x))) \<and>
            (case Option.bind flt endDate of
               None \<Rightarrow> True
             | Some e \<Rightarrow> (\<exists>x\<in>set (revenues d). date_le (date x) e)
                       \<and> (\<exists>x\<in>set (expenses d). date_le (date x) e)))
            Dashboard)
         userId None"
proof -
  have "filter (matches (charts_match userId flt)) Dashboard
      = filter (matches (charts_match userId None))
         (filter (\<lambda>d.
            (case Option.bind flt startDate of
               None \<Rightarrow> True
             | Some s \<Rightarrow> (\<exists>x\<in>set (revenues d). date_le s (date x))
                       \<and> (\<exists>x\<in>set (expenses d). date_le s (date x))) \<and>
            (case Option.bind flt endDate of
               None \<Rightarrow> True
             | Some e \<Rightarrow> (\<exists>x\<in>set (revenues d). date_le (date x) e)
                       \<and> (\<exists>x\<in>set (expenses d). date_le (date x) e)))
            Dashboard)"
    unfolding filter_filter
    by (rule filter_cong [OF refl]) (auto simp: matches_charts)
  then show ?thesis
    by (simp add: getCharts_def Let_def)
qed

theorem getCharts_range_selects_records_witness:
  "getCharts months_en day_labels mid_march [dashboard_u1, dashboard_pending] ''64f1a2b3c4d5e6f708192a01'' from_february
     = getCharts months_en day_labels mid_march [dashboard_u1] ''64f1a2b3c4d5e6f708192a01'' None"
  using getCharts_range_selects_records [of months_en day_labels mid_march
      "[dashboard_u1, dashboard_pending]" "''64f1a2b3c4d5e6f708192a01''" from_february]
  by (simp add: from_february_def dashboard_u1_def dashboard_pending_def revenue_jan_def
      revenue_mar_def expense_food_jan_def expense_food_mar_def day_of_def date_le_def)

text \<open>
  C9: for a user whose record exists and has no expense entry, \<open>getCharts\<close> is to return
  the doughnut with every label of \<open>expenseTypes\<close> and the sum 0 for each. In January
  it returns nothing: \<^verbatim>\<open>currentMonth\<close> is 0, the \<^verbatim>\<open>$project\<close> stage reads it as
  an exclusion and the aggregation fails. In the other months the doughnut is as the
  claim says (lemmas \<open>doughnut_of_rows\<close> and \<open>doughnut_without_expenses\<close>).
\<close>

theorem getCharts_fails_in_january:
  "user dashboard_new = ''64f1a2b3c4d5e6f708192a01''
   \<and> expenses dashboard_new = []
   \<and> getMonth (day_of 2024 Jan 20) = 0
   \<and> getCharts months_en day_labels (day_of 2024 Jan 20) [dashboard_new] ''64f1a2b3c4d5e6f708192a01'' None
       = Inl InvalidProjection"
proof -
  have "getMonth (day_of 2024 Jan 20) = 0"
    by (simp add: getMonth_def day_of_def)
  then show ?thesis
    by (simp add: getCharts_january dashboard_new_def)
qed

text \<open>
  C6 (the read operations): with no record for \<open>userId\<close>, \<open>getCharts\<close> is to return
  the empty result and not to fail. In January it fails, as for C9, before any record
  is looked at; in March it returns the empty result. At the same input \<open>getOverview\<close>
  returns the empty result and the three create operations, on entries whose reference
  resolves, fail with \<open>DashboardDataNotFound\<close>, as the claim says.
\<close>

theorem getCharts_without_record_in_january:
  "ObjectId ''64f1a2b3c4d5e6f708192a07'' = Inr ''64f1a2b3c4d5e6f708192a07''
   \<and> doc_id dashboard_pending \<noteq> ''64f1a2b3c4d5e6f708192a07''
   \<and> user dashboard_pending \<noteq> ''64f1a2b3c4d5e6f708192a07''
   \<and> getMonth (day_of 2024 Jan 20) = 0
   \<and> getCharts months_en day_labels (day_of 2024 Jan 20) [dashboard_pending]
        ''64f1a2b3c4d5e6f708192a07'' None = Inl InvalidProjection
   \<and> getCharts months_en day_labels mid_march [dashboard_pending]
        ''64f1a2b3c4d5e6f708192a07'' None = Inr []
   \<and> getOverview no_date_filter [dashboard_pending] ''64f1a2b3c4d5e6f708192a07'' None = []
   \<and> createExpense no_validators ''64f1a2b3c4d5e6f708192a07'' expense_gift [dashboard_pending]
        = (Inl DashboardDataNotFound, [dashboard_pending])
   \<and> createRevenue (getUserById [''64f1a2b3c4d5e6f708192a02'']) no_validators
        ''64f1a2b3c4d5e6f708192a07'' revenue_mar [dashboard_pending]
        = (Inl DashboardDataNotFound, [dashboard_pending])
   \<and> createReceivable (getUserById [''64f1a2b3c4d5e6f708192a02'']) no_validators
        ''64f1a2b3c4d5e6f708192a07'' pending_50 [dashboard_pending]
        = (Inl DashboardDataNotFound, [dashboard_pending])"
proof -
  have j: "getMonth (day_of 2024 Jan 20) = 0"
    by (simp add: getMonth_def day_of_def)
  have n: "\<forall>d\<in>set [dashboard_pending]. user d \<noteq> ''64f1a2b3c4d5e6f708192a07''"
    by (simp add: dashboard_pending_def)
  have i: "\<forall>d\<in>set [dashboard_pending]. doc_id d \<noteq> ''64f1a2b3c4d5e6f708192a07''"
    by (simp add: dashboard_pending_def)
  have m: "getMonth mid_march \<noteq> 0"
    by (simp add: getMonth_mid_march)
  have o: "ObjectId ''64f1a2b3c4d5e6f708192a07'' = Inr ''64f1a2b3c4d5e6f708192a07''"
    by (simp add: ObjectId_def hex_digit_def)
  have c: "createExpense no_validators ''64f1a2b3c4d5e6f708192a07'' expense_gift [dashboard_pending]
        = (Inl DashboardDataNotFound, [dashboard_pending])"
    using i by (simp add: createExpense_def findByIdAndUpdate_absent found_or_throw_simps
        no_validators_def)
  have r: "createRevenue (getUserById [''64f1a2b3c4d5e6f708192a02'']) no_validators
        ''64f1a2b3c4d5e6f708192a07'' revenue_mar [dashboard_pending]
        = (Inl DashboardDataNotFound, [dashboard_pending])"
    using i by (simp add: createRevenue_def getUserById_def revenue_mar_def
        findByIdAndUpdate_absent found_or_throw_simps no_validators_def)
  have v: "createReceivable (getUserById [''64f1a2b3c4d5e6f708192a02'']) no_validators
        ''64f1a2b3c4d5e6f708192a07'' pending_50 [dashboard_pending]
        = (Inl DashboardDataNotFound, [dashboard_pending])"
    using i by (simp add: createReceivable_def getUserById_def pending_50_def
        findByIdAndUpdate_absent found_or_throw_simps no_validators_def)
  from j n i o c r v getCharts_january [OF j] getCharts_no_user [OF n m]
    getOverview_no_user [OF n]
  show ?thesis
    by simp
qed

section \<open>Claims about the create operations\<close>

text \<open>
  C5: when the lookup of \<open>revenue.source\<close> (of \<open>receivable.client\<close>) fails,
  \<open>createRevenue\<close> (\<open>createReceivable\<close>) fails with the very error of the lookup, for
  every \<open>userId\<close>, and the collection is left as it was.
\<close>

theorem create_reference_not_found:
  "(userLookup (source revenue) = Inl e \<longrightarrow>
      createRevenue userLookup schema userId revenue Dashboard = (Inl e, Dashboard))
   \<and> (userLookup (client receivable) = Inl e \<longrightarrow>
      createReceivable userLookup schema userId receivable Dashboard = (Inl e, Dashboard))"
  by (simp add: createRevenue_def createReceivable_def)

theorem create_reference_not_found_witness:
  "getUserById [''64f1a2b3c4d5e6f708192a02''] (source revenue_ghost) = Inl ReferenceNotFound
   \<and> createRevenue (getUserById [''64f1a2b3c4d5e6f708192a02'']) no_validators ''64f1a2b3c4d5e6f708192a01'' revenue_ghost [dashboard_u1]
       = (Inl ReferenceNotFound, [dashboard_u1])
   \<and> getUserById [''64f1a2b3c4d5e6f708192a02''] (client receivable_ghost) = Inl ReferenceNotFound
   \<and> createReceivable (getUserById [''64f1a2b3c4d5e6f708192a02'']) no_validators ''64f1a2b3c4d5e6f708192a01'' receivable_ghost [dashboard_u1]
       = (Inl ReferenceNotFound, [dashboard_u1])"
proof -
  have a: "getUserById [''64f1a2b3c4d5e6f708192a02''] (source revenue_ghost) = Inl ReferenceNotFound"
    by (simp add: getUserById_def revenue_ghost_def)
  have b: "getUserById [''64f1a2b3c4d5e6f708192a02''] (client receivable_ghost) = Inl ReferenceNotFound"
    by (simp add: getUserById_def receivable_ghost_def)
  from a b
    create_reference_not_found [of "getUserById [''64f1a2b3c4d5e6f708192a02'']" revenue_ghost ReferenceNotFound
      no_validators "''64f1a2b3c4d5e6f708192a01''" "[dashboard_u1]" receivable_ghost]
  show ?thesis by simp
qed

text \<open>
  C7, as stated, fails: the collection may hold a record whose \<open>user\<close> field is \<open>userId\<close>
  with another \<^verbatim>\<open>_id\<close>, and a record of another user whose \<^verbatim>\<open>_id\<close> is \<open>userId\<close>;
  \<open>createExpense\<close> then succeeds, on the other user's record.
\<close>

theorem create_by_document_id_counterexample:
  "dashboard_pending \<in> set [dashboard_pending, dashboard_other]
   \<and> user dashboard_pending = ''64f1a2b3c4d5e6f708192a01''
   \<and> doc_id dashboard_pending \<noteq> ''64f1a2b3c4d5e6f708192a01''
   \<and> createExpense no_validators ''64f1a2b3c4d5e6f708192a01'' expense_gift [dashboard_pending, dashboard_other]
       = (Inr (dashboard_other \<lparr> expenses := [expense_gift] \<rparr>),
          [dashboard_pending, dashboard_other \<lparr> expenses := [expense_gift] \<rparr>])"
  by (simp add: createExpense_def findByIdAndUpdate_def found_or_throw_def no_validators_def
      dashboard_pending_def dashboard_other_def addToSet_def)

text \<open>
  C7, amended: the create operations find the record by its \<^verbatim>\<open>_id\<close>, \<open>getOverview\<close>
  by its \<open>user\<close> field. In a state that holds a record whose \<open>user\<close> field is \<open>userId\<close>
  and no record whose \<^verbatim>\<open>_id\<close> is \<open>userId\<close>, \<open>createExpense\<close> fails with
  \<open>DashboardDataNotFound\<close>, and so do \<open>createRevenue\<close> and \<open>createReceivable\<close> once the
  referenced user is found (each for an entry that the validators accept), while
  \<open>getOverview\<close> with an empty date filter returns the row of that record.
\<close>

theorem create_by_document_id:
  assumes "d \<in> set Dashboard" and "user d = userId"
    and "\<forall>x\<in>set Dashboard. doc_id x \<noteq> userId"
  shows "(valid_expense schema expense \<longrightarrow>
            createExpense schema userId expense Dashboard = (Inl DashboardDataNotFound, Dashboard))
       \<and> (userLookup (source revenue) = Inr u \<and> valid_revenue schema revenue \<longrightarrow>
            createRevenue userLookup schema userId revenue Dashboard
              = (Inl DashboardDataNotFound, Dashboard))
       \<and> (userLookup (client receivable) = Inr u \<and> valid_receivable schema receivable \<longrightarrow>
            createReceivable userLookup schema userId receivable Dashboard
              = (Inl DashboardDataNotFound, Dashboard))
       \<and> (cdf (Option.bind flt flt_date) (Option.bind flt flt_month) (Option.bind flt flt_year) = None
            \<longrightarrow> overview_project d \<in> set (getOverview cdf Dashboard userId flt)
               \<and> getOverview cdf Dashboard userId flt \<noteq> [])"
proof -
  have "cdf (Option.bind flt flt_date) (Option.bind flt flt_month) (Option.bind flt flt_year) = None
        \<Longrightarrow> overview_project d \<in> set (getOverview cdf Dashboard userId flt)"
    by (rule getOverview_member [OF assms(1,2)])
  moreover have "overview_project d \<in> set (getOverview cdf Dashboard userId flt)
        \<Longrightarrow> getOverview cdf Dashboard userId flt \<noteq> []"
    by auto
  ultimately show ?thesis
    using assms(3)
    by (simp add: createExpense_def createRevenue_def createReceivable_def
        findByIdAndUpdate_absent found_or_throw_simps)
qed

theorem create_by_document_id_witness:
  "dashboard_pending \<in> set [dashboard_pending]
   \<and> user dashboard_pending = ''64f1a2b3c4d5e6f708192a01''
   \<and> createExpense no_validators ''64f1a2b3c4d5e6f708192a01'' expense_gift [dashboard_pending]
       = (Inl DashboardDataNotFound, [dashboard_pending])
   \<and> createRevenue (getUserById [''64f1a2b3c4d5e6f708192a02'']) no_validators ''64f1a2b3c4d5e6f708192a01'' revenue_mar [dashboard_pending]
       = (Inl DashboardDataNotFound, [dashboard_pending])
   \<and> createReceivable (getUserById [''64f1a2b3c4d5e6f708192a02'']) no_validators ''64f1a2b3c4d5e6f708192a01'' pending_50 [dashboard_pending]
       = (Inl DashboardDataNotFound, [dashboard_pending])
   \<and> overview_project dashboard_pending
       \<in> set (getOverview no_date_filter [dashboard_pending] ''64f1a2b3c4d5e6f708192a01'' None)
   \<and> getOverview no_date_filter [dashboard_pending] ''64f1a2b3c4d5e6f708192a01'' None \<noteq> []"
proof -
  have a: "dashboard_pending \<in> set [dashboard_pending]" by simp
  have b: "user dashboard_pending = ''64f1a2b3c4d5e6f708192a01''" by (simp add: dashboard_pending_def)
  have c: "\<forall>x\<in>set [dashboard_pending]. doc_id x \<noteq> ''64f1a2b3c4d5e6f708192a01''" by (simp add: dashboard_pending_def)
  from a b
    create_by_document_id [OF a b c, of no_validators expense_gift "getUserById [''64f1a2b3c4d5e6f708192a02'']"
      revenue_mar "''64f1a2b3c4d5e6f708192a02''" pending_50 no_date_filter None]
  show ?thesis
    by (simp add: no_validators_def getUserById_def revenue_mar_def pending_50_def
        no_date_filter_def)
qed

text \<open>
  C8: adding the same entry twice stores it once. A second call of \<open>createExpense\<close>,
  \<open>createRevenue\<close> or \<open>createReceivable\<close> with the same entry and \<open>userId\<close> returns
  what the first call returned and leaves the collection as the first call left it.
  When the first call succeeds, it has replaced the first record \<open>d\<close> whose \<^verbatim>\<open>_id\<close>
  is \<open>userId\<close>, and no other, by \<open>d\<close> with the entry added at the end of its array
  unless an equal entry was there: an entry that was not there occurs once afterwards,
  and an empty array becomes the array of that entry alone, of length 1. The first call
  succeeds whenever a record has that \<^verbatim>\<open>_id\<close>, the reference resolves and the
  validators accept the entry.
\<close>

theorem create_twice:
  "(createExpense schema userId expense Dashboard = (r1, D1) \<longrightarrow>
      createExpense schema userId expense D1 = (r1, D1))
   \<and> (createRevenue userLookup schema userId revenue Dashboard = (r2, D2) \<longrightarrow>
      createRevenue userLookup schema userId revenue D2 = (r2, D2))
   \<and> (createReceivable userLookup schema userId receivable Dashboard = (r3, D3) \<longrightarrow>
      createReceivable userLookup schema userId receivable D3 = (r3, D3))
   \<and> (r1 = Inr d1 \<and> createExpense schema userId expense Dashboard = (r1, D1) \<longrightarrow>
      (\<exists>ys d zs. Dashboard = ys @ d # zs \<and> (\<forall>y\<in>set ys. doc_id y \<noteq> userId) \<and> doc_id d = userId
         \<and> d1 = d \<lparr> expenses :=
                      (if expense \<in> set (expenses d) then expenses d else expenses d @ [expense]) \<rparr>
         \<and> D1 = ys @ d1 # zs
         \<and> (expense \<notin> set (expenses d) \<longrightarrow> count_list (expenses d1) expense = 1)
         \<and> (expenses d = [] \<longrightarrow> expenses d1 = [expense] \<and> length (expenses d1) = 1)))
   \<and> (r2 = Inr d2 \<and> createRevenue userLookup schema userId revenue Dashboard = (r2, D2) \<longrightarrow>
      (\<exists>ys d zs. Dashboard = ys @ d # zs \<and> (\<forall>y\<in>set ys. doc_id y \<noteq> userId) \<and> doc_id d = userId
         \<and> d2 = d \<lparr> revenues :=
                      (if revenue \<in> set (revenues d) then revenues d else revenues d @ [revenue]) \<rparr>
         \<and> D2 = ys @ d2 # zs
         \<and> (revenue \<notin> set (revenues d) \<longrightarrow> count_list (revenues d2) revenue = 1)
         \<and> (revenues d = [] \<longrightarrow> revenues d2 = [revenue] \<and> length (revenues d2) = 1)))
   \<and> (r3 = Inr d3 \<and> createReceivable userLookup schema userId receivable Dashboard = (r3, D3) \<longrightarrow>
      (\<exists>ys d zs. Dashboard = ys @ d # zs \<and> (\<forall>y\<in>set ys. doc_id y \<noteq> userId) \<and> doc_id d = userId
         \<and> d3 = d \<lparr> receivables :=
                      (if receivable \<in> set (receivables d) then receivables d
                       else receivables d @ [receivable]) \<rparr>
         \<and> D3 = ys @ d3 # zs
         \<and> (receivable \<notin> set (receivables d) \<longrightarrow> count_list (receivables d3) receivable = 1)
         \<and> (receivables d = [] \<longrightarrow> receivables d3 = [receivable] \<and> length (receivables d3) = 1)))
   \<and> ((\<exists>x\<in>set Dashboard. doc_id x = userId) \<longrightarrow>
      (valid_expense schema expense \<longrightarrow>
         (\<exists>d D'. createExpense schema userId expense Dashboard = (Inr d, D')))
      \<and> (userLookup (source revenue) = Inr u \<and> valid_revenue schema revenue \<longrightarrow>
         (\<exists>d D'. createRevenue userLookup schema userId revenue Dashboard = (Inr d, D')))
      \<and> (userLookup (client receivable) = Inr u \<and> valid_receivable schema receivable \<longrightarrow>
         (\<exists>d D'. createReceivable userLookup schema userId receivable Dashboard = (Inr d, D'))))"
proof (intro conjI impI)
  assume "createExpense schema userId expense Dashboard = (r1, D1)"
  then show "createExpense schema userId expense D1 = (r1, D1)"
    by (rule createExpense_again)
next
  assume "createRevenue userLookup schema userId revenue Dashboard = (r2, D2)"
  then show "createRevenue userLookup schema userId revenue D2 = (r2, D2)"
    by (rule createRevenue_again)
next
  assume "createReceivable userLookup schema userId receivable Dashboard = (r3, D3)"
  then show "createReceivable userLookup schema userId receivable D3 = (r3, D3)"
    by (rule createReceivable_again)
next
  assume "r1 = Inr d1 \<and> createExpense schema userId expense Dashboard = (r1, D1)"
  then have "found_or_throw (findByIdAndUpdate schema userId (AddToSetExpenses expense) Dashboard)
      = (Inr d1, D1)"
    by (simp add: createExpense_def)
  from found_update_Inr(2) [OF this] obtain ys d zs where
      h: "Dashboard = ys @ d # zs" "\<forall>y\<in>set ys. doc_id y \<noteq> userId" "doc_id d = userId"
         "d1 = apply_update (AddToSetExpenses expense) d" "D1 = ys @ d1 # zs"
    by blast
  from h(4) have "d1 = d \<lparr> expenses :=
        (if expense \<in> set (expenses d) then expenses d else expenses d @ [expense]) \<rparr>"
      "expense \<notin> set (expenses d) \<longrightarrow> count_list (expenses d1) expense = 1"
      "expenses d = [] \<longrightarrow> expenses d1 = [expense] \<and> length (expenses d1) = 1"
    by (simp_all add: addToSet_facts)
  with h(1,2,3,5) show "\<exists>ys d zs. Dashboard = ys @ d # zs \<and> (\<forall>y\<in>set ys. doc_id y \<noteq> userId)
         \<and> doc_id d = userId
         \<and> d1 = d \<lparr> expenses :=
                      (if expense \<in> set (expenses d) then expenses d else expenses d @ [expense]) \<rparr>
         \<and> D1 = ys @ d1 # zs
         \<and> (expense \<notin> set (expenses d) \<longrightarrow> count_list (expenses d1) expense = 1)
         \<and> (expenses d = [] \<longrightarrow> expenses d1 = [expense] \<and> length (expenses d1) = 1)"
    by blast
next
  assume "r2 = Inr d2 \<and> createRevenue userLookup schema userId revenue Dashboard = (r2, D2)"
  then have "createRevenue userLookup schema userId revenue Dashboard = (Inr d2, D2)"
    by simp
  then have "found_or_throw (findByIdAndUpdate schema userId (AddToSetRevenues revenue) Dashboard)
      = (Inr d2, D2)"
    by (rule createRevenue_Inr)
  from found_update_Inr(2) [OF this] obtain ys d zs where
      h: "Dashboard = ys @ d # zs" "\<forall>y\<in>set ys. doc_id y \<noteq> userId" "doc_id d = userId"
         "d2 = apply_update (AddToSetRevenues revenue) d" "D2 = ys @ d2 # zs"
    by blast
  from h(4) have "d2 = d \<lparr> revenues :=
        (if revenue \<in> set (revenues d) then revenues d else revenues d @ [revenue]) \<rparr>"
      "revenue \<notin> set (revenues d) \<longrightarrow> count_list (revenues d2) revenue = 1"
      "revenues d = [] \<longrightarrow> revenues d2 = [revenue] \<and> length (revenues d2) = 1"
    by (simp_all add: addToSet_facts)
  with h(1,2,3,5) show "\<exists>ys d zs. Dashboard = ys @ d # zs \<and> (\<forall>y\<in>set ys. doc_id y \<noteq> userId)
         \<and> doc_id d = userId
         \<and> d2 = d \<lparr> revenues :=
                      (if revenue \<in> set (revenues d) then revenues d else revenues d @ [revenue]) \<rparr>
         \<and> D2 = ys @ d2 # zs
         \<and> (revenue \<notin> set (revenues d) \<longrightarrow> count_list (revenues d2) revenue = 1)
         \<and> (revenues d = [] \<longrightarrow> revenues d2 = [revenue] \<and> length (revenues d2) = 1)"
    by blast
next
  assume "r3 = Inr d3 \<and> createReceivable userLookup schema userId receivable Dashboard = (r3, D3)"
  then have "createReceivable userLookup schema userId receivable Dashboard = (Inr d3, D3)"
    by simp
  then have "found_or_throw
      (findByIdAndUpdate schema userId (AddToSetReceivables receivable) Dashboard) = (Inr d3, D3)"
    by (rule createReceivable_Inr)
  from found_update_Inr(2) [OF this] obtain ys d zs where
      h: "Dashboard = ys @ d # zs" "\<forall>y\<in>set ys. doc_id y \<noteq> userId" "doc_id d = userId"
         "d3 = apply_update (AddToSetReceivables receivable) d" "D3 = ys @ d3 # zs"
    by blast
  from h(4) have "d3 = d \<lparr> receivables :=
        (if receivable \<in> set (receivables d) then receivables d
         else receivables d @ [receivable]) \<rparr>"
      "receivable \<notin> set (receivables d) \<longrightarrow> count_list (receivables d3) receivable = 1"
      "receivables d = [] \<longrightarrow> receivables d3 = [receivable] \<and> length (receivables d3) = 1"
    by (simp_all add: addToSet_facts)
  with h(1,2,3,5) show "\<exists>ys d zs. Dashboard = ys @ d # zs \<and> (\<forall>y\<in>set ys. doc_id y \<noteq> userId)
         \<and> doc_id d = userId
         \<and> d3 = d \<lparr> receivables :=
                      (if receivable \<in> set (receivables d) then receivables d
                       else receivables d @ [receivable]) \<rparr>
         \<and> D3 = ys @ d3 # zs
         \<and> (receivable \<notin> set (receivables d) \<longrightarrow> count_list (receivables d3) receivable = 1)
         \<and> (receivables d = [] \<longrightarrow> receivables d3 = [receivable] \<and> length (receivables d3) = 1)"
    by blast
next
  assume p: "\<exists>x\<in>set Dashboard. doc_id x = userId" and "valid_expense schema expense"
  with found_update_present [OF _ p, of schema "AddToSetExpenses expense"]
  show "\<exists>d D'. createExpense schema userId expense Dashboard = (Inr d, D')"
    by (simp add: createExpense_def)
next
  assume p: "\<exists>x\<in>set Dashboard. doc_id x = userId"
    and "userLookup (source revenue) = Inr u \<and> valid_revenue schema revenue"
  with found_update_present [OF _ p, of schema "AddToSetRevenues revenue"]
  show "\<exists>d D'. createRevenue userLookup schema userId revenue Dashboard = (Inr d, D')"
    by (simp add: createRevenue_def)
next
  assume p: "\<exists>x\<in>set Dashboard. doc_id x = userId"
    and "userLookup (client receivable) = Inr u \<and> valid_receivable schema receivable"
  with found_update_present [OF _ p, of schema "AddToSetReceivables receivable"]
  show "\<exists>d D'. createReceivable userLookup schema userId receivable Dashboard = (Inr d, D')"
    by (simp add: createReceivable_def)
qed

theorem create_twice_witness:
  "createExpense amount_validators ''64f1a2b3c4d5e6f708192a01'' expense_gift
       [dashboard_pending, dashboard_u1]
     = (Inr (dashboard_u1 \<lparr> expenses := [expense_food_jan, expense_food_mar, expense_gift] \<rparr>),
        [dashboard_pending,
         dashboard_u1 \<lparr> expenses := [expense_food_jan, expense_food_mar, expense_gift] \<rparr>])
   \<and> createExpense amount_validators ''64f1a2b3c4d5e6f708192a01'' expense_gift
       [dashboard_pending,
        dashboard_u1 \<lparr> expenses := [expense_food_jan, expense_food_mar, expense_gift] \<rparr>]
     = (Inr (dashboard_u1 \<lparr> expenses := [expense_food_jan, expense_food_mar, expense_gift] \<rparr>),
        [dashboard_pending,
         dashboard_u1 \<lparr> expenses := [expense_food_jan, expense_food_mar, expense_gift] \<rparr>])
   \<and> createRevenue (getUserById [''64f1a2b3c4d5e6f708192a02'']) amount_validators
       ''64f1a2b3c4d5e6f708192a01'' revenue_mar [dashboard_new]
     = (Inr (dashboard_new \<lparr> revenues := [revenue_mar] \<rparr>),
        [dashboard_new \<lparr> revenues := [revenue_mar] \<rparr>])
   \<and> createRevenue (getUserById [''64f1a2b3c4d5e6f708192a02'']) amount_validators
       ''64f1a2b3c4d5e6f708192a01'' revenue_mar [dashboard_new \<lparr> revenues := [revenue_mar] \<rparr>]
     = (Inr (dashboard_new \<lparr> revenues := [revenue_mar] \<rparr>),
        [dashboard_new \<lparr> revenues := [revenue_mar] \<rparr>])
   \<and> createReceivable (getUserById [''64f1a2b3c4d5e6f708192a02'']) amount_validators
       ''64f1a2b3c4d5e6f708192a01'' pending_50 [dashboard_new]
     = (Inr (dashboard_new \<lparr> receivables := [pending_50] \<rparr>),
        [dashboard_new \<lparr> receivables := [pending_50] \<rparr>])
   \<and> createReceivable (getUserById [''64f1a2b3c4d5e6f708192a02'']) amount_validators
       ''64f1a2b3c4d5e6f708192a01'' pending_50 [dashboard_new \<lparr> receivables := [pending_50] \<rparr>]
     = (Inr (dashboard_new \<lparr> receivables := [pending_50] \<rparr>),
        [dashboard_new \<lparr> receivables := [pending_50] \<rparr>])
   \<and> length (expenses (dashboard_new \<lparr> expenses := [expense_gift] \<rparr>)) = 1"
proof -
  have a: "createExpense amount_validators ''64f1a2b3c4d5e6f708192a01'' expense_gift
       [dashboard_pending, dashboard_u1]
     = (Inr (dashboard_u1 \<lparr> expenses := [expense_food_jan, expense_food_mar, expense_gift] \<rparr>),
        [dashboard_pending,
         dashboard_u1 \<lparr> expenses := [expense_food_jan, expense_food_mar, expense_gift] \<rparr>])"
    by (simp add: createExpense_def findByIdAndUpdate_def found_or_throw_def amount_validators_def
        dashboard_u1_def dashboard_pending_def addToSet_def expense_gift_def expense_food_jan_def
        expense_food_mar_def)
  have b: "createRevenue (getUserById [''64f1a2b3c4d5e6f708192a02'']) amount_validators
       ''64f1a2b3c4d5e6f708192a01'' revenue_mar [dashboard_new]
     = (Inr (dashboard_new \<lparr> revenues := [revenue_mar] \<rparr>),
        [dashboard_new \<lparr> revenues := [revenue_mar] \<rparr>])"
    by (simp add: createRevenue_def getUserById_def findByIdAndUpdate_def found_or_throw_def
        amount_validators_def dashboard_new_def addToSet_def revenue_mar_def)
  have c: "createReceivable (getUserById [''64f1a2b3c4d5e6f708192a02'']) amount_validators
       ''64f1a2b3c4d5e6f708192a01'' pending_50 [dashboard_new]
     = (Inr (dashboard_new \<lparr> receivables := [pending_50] \<rparr>),
        [dashboard_new \<lparr> receivables := [pending_50] \<rparr>])"
    by (simp add: createReceivable_def getUserById_def findByIdAndUpdate_def found_or_throw_def
        amount_validators_def dashboard_new_def addToSet_def pending_50_def)
  note a2 = create_twice [THEN conjunct1, THEN mp, OF a]
  note b2 = create_twice [THEN conjunct2, THEN conjunct1, THEN mp, OF b]
  note c2 = create_twice [THEN conjunct2, THEN conjunct2, THEN conjunct1, THEN mp, OF c]
  from a a2 b b2 c c2 show ?thesis
    by simp
qed




end
